theory Spec2Isabelle
  imports Complex_Main
begin

section \<open>Industrial gas and air line sizing: the calculation service\<close>

text \<open>
  This theory embeds \<^verbatim>\<open>src/services/sizingService.ts\<close> together with the constants of
  \<^verbatim>\<open>src/constants.ts\<close> and the data contracts of the types module.

  Numbers: a TypeScript \<^verbatim>\<open>number\<close> is modelled as a \<^typ>\<open>real\<close>, so arithmetic is exact
  (no rounding, no NaN). The one place where the source writes \<^verbatim>\<open>Infinity\<close> (the tank
  coverage time) has a type of its own. \<^verbatim>\<open>Math.pow\<close> is \<open>powr\<close>, \<^verbatim>\<open>Math.log10\<close> is
  \<open>log 10\<close>, \<^verbatim>\<open>Math.sqrt\<close> is \<open>sqrt\<close>, \<^verbatim>\<open>Math.PI\<close> is \<open>pi\<close>. A division by zero is
  \<open>0\<close> in HOL and infinite or NaN in JavaScript: no theorem below relies on the value of
  such a quotient; where a quotient matters its denominator is shown to be non-zero.

  The calculation trace (the \<^verbatim>\<open>details\<close> fields, \<^verbatim>\<open>detailsMap\<close>, \<^verbatim>\<open>sampleDropDetails\<close>) is
  display-only and is left out; everything else is translated line by line.
\<close>

subsection \<open>Constants (constants.ts)\<close>

datatype GasType = air | naturalGas

definition P_ATM_PSIA :: real where
  "P_ATM_PSIA = 14.7"

definition G_C_LBM_FT_LBF_S2 :: real where
  "G_C_LBM_FT_LBF_S2 = 32.174"

definition GALLONS_PER_FT3 :: real where
  "GALLONS_PER_FT3 = 7.48"

text \<open>The fields \<^verbatim>\<open>R\<close>, \<^verbatim>\<open>nu\<close> and \<^verbatim>\<open>name\<close> of the source, prefixed.\<close>

record GasProperties =
  gas_R :: real
  gas_nu :: real
  gas_name :: string

fun GAS_PROPERTIES :: "GasType \<Rightarrow> GasProperties" where
  "GAS_PROPERTIES air =
     \<lparr> gas_R = 53.35, gas_nu = 1.6 / 10 ^ 4, gas_name = ''Compressed Air'' \<rparr>"
| "GAS_PROPERTIES naturalGas =
     \<lparr> gas_R = 96.5, gas_nu = 1.72 / 10 ^ 4, gas_name = ''Natural Gas (SG 0.6)'' \<rparr>"

subsection \<open>Data contracts (types)\<close>

text \<open>
  Field names are those of the source, except \<^verbatim>\<open>length\<close> and \<^verbatim>\<open>id\<close>, which are constants
  of HOL: they are \<open>length'\<close> and \<open>id'\<close> here. Fields that occur in several
  interfaces are written with the record's name in front.
\<close>

record SystemInputs =
  inletPressure :: real
  availableCompressorFlow :: real
  minOutletPressure :: real
  maxTypicalOutletPressure :: real
  demandSafetyFactor :: real
  tankVolume :: real
  gasType :: GasType

record HeaderGeometry =
  headerLength :: real
  maxLineVelocity :: real
  pipeRoughness :: real
  airTemperature :: real

record PipeSize =
  nominal :: string
  id_in :: real
  selected :: bool

record SubDrop =
  id' :: string
  name :: string
  length' :: real
  reqPressure :: real
  reqFlow :: real

record Drop =
  id' :: string
  name :: string
  length' :: real
  reqPressure :: real
  reqFlow :: real
  subDrops :: "SubDrop list"

datatype SizingStatus =
    OK
  | High_velocity
  | Insufficient_outlet_pressure
  | Excessive_dP
  | High_velocity_and_Excessive_dP
  | Inactive
  | No_feasible_size

datatype Severity = Sev_ok | Sev_warn | Sev_bad

text \<open>\<^verbatim>\<open>outletPressure: number | null\<close> and the optional \<^verbatim>\<open>severity?\<close> are options.\<close>

record SizingResultRow =
  nominal :: string
  id_in :: real
  velocity :: real
  deltaP :: real
  outletPressure :: "real option"
  status :: SizingStatus
  severity :: "Severity option"

record HeaderResults =
  recommendedSize :: string
  outletPressure :: real
  designScfm :: real
  velocity :: real
  comparisonTable :: "SizingResultRow list"

record SubDropResult =
  name :: string
  reqPressure :: real
  reqFlow :: real
  length' :: real
  recommendedSize :: string
  status :: SizingStatus
  velocity :: real
  deltaP :: real
  sizingOptions :: "SizingResultRow list"

record DropResult =
  id' :: string
  name :: string
  length' :: real
  reqPressure :: real
  reqFlow :: real
  subDropTotalFlow :: real
  usedFlow :: real
  isSizedOnSubDrops :: bool
  recommendedSize :: string
  velocity :: real
  deltaP :: real
  comparisonTable :: "SizingResultRow list"
  subDropResults :: "SubDropResult list"

text \<open>\<^verbatim>\<open>coverageTimeMinutes\<close> is a quotient or the literal \<^verbatim>\<open>Infinity\<close>.\<close>

datatype Minutes = Finite real | Infinity

record TankMetrics =
  equivalentStorageScf :: real
  referenceFlowScfm :: real
  coverageTimeMinutes :: Minutes
  isCoveringDeficit :: bool

datatype CapacityStatus = Cap_OK | SHORTFALL | No_demand

record CalculationResults =
  totalDemandScfm :: real
  totalDesignDemandScfm :: real
  capacityStatus :: CapacityStatus
  capacityMarginOrDeficitScfm :: real
  headerDesignScfm :: real
  header :: "HeaderResults option"
  drops :: "DropResult list"
  tankMetrics :: "TankMetrics option"

text \<open>The object literal that \<^verbatim>\<open>sizePipe\<close> returns (without \<^verbatim>\<open>details\<close>).\<close>

record SizePipeResult =
  table :: "SizingResultRow list"
  recommended :: string
  velocity :: real
  deltaP :: real
  status :: SizingStatus

subsection \<open>Helpers (sizingService.ts, lines 4 to 31)\<close>

definition toAbsRankine :: "real \<Rightarrow> real" where
  "toAbsRankine tempF = tempF + 459.67"

definition swameeJainFrictionFactor :: "real \<Rightarrow> real \<Rightarrow> real \<Rightarrow> real" where
  "swameeJainFrictionFactor roughness_ft diameter_ft reynoldsNumber =
     (if reynoldsNumber \<le> 2300 then 64 / reynoldsNumber
      else
        let term1 = roughness_ft / (3.7 * diameter_ft);
            term2 = 5.74 / (reynoldsNumber powr 0.9);
            logTerm = log 10 (term1 + term2)
        in 0.25 / (logTerm * logTerm))"

definition calculateSeverity :: "bool \<Rightarrow> real \<Rightarrow> real \<Rightarrow> real \<Rightarrow> real \<Rightarrow> Severity" where
  "calculateSeverity isOk velocity' maxVelocity deltaP' allowedDeltaP =
     (if isOk then Sev_ok
      else
        let velocityExceededBadly = (velocity' > 1.5 * maxVelocity);
            pressureExceededBadly = (allowedDeltaP > 0 \<and> deltaP' > 1.5 * allowedDeltaP)
        in if velocityExceededBadly \<or> pressureExceededBadly then Sev_bad else Sev_warn)"

text \<open>
  \<^verbatim>\<open>x || 0\<close> on a number: \<open>0\<close> when \<open>x\<close> is falsy. Of the falsy numbers only \<open>0\<close>
  is a real.
\<close>

definition or0 :: "real \<Rightarrow> real" where
  "or0 x = (if x = 0 then 0 else x)"

subsection \<open>The two flow correlations\<close>

text \<open>
  The body of the natural-gas branch (IFGC 402.4.1) is written out twice in the source,
  in \<^verbatim>\<open>sizePipe\<close> (lines 79 to 103) and in \<^verbatim>\<open>calculateHeaderSizing\<close> (lines 220 to 243),
  with the same text up to the names of the arguments. It yields
  \<open>(deltaP_psi, p_out_psig, v_fts)\<close>.
\<close>

definition ifgcBranch :: "real \<Rightarrow> real \<Rightarrow> real \<Rightarrow> real \<Rightarrow> real \<Rightarrow> real \<times> real \<times> real" where
  "ifgcBranch flowScfm length_ft upstreamPressure_psig d_in area_ft2 =
     (let p_in_abs_psia = upstreamPressure_psig + P_ATM_PSIA;
          flowScfh = flowScfm * 60;
          p1_sq = p_in_abs_psia * p_in_abs_psia;
          p_out_psig =
            (if flowScfh > 0 then
               let term_in_parens = flowScfh / (2207 * (d_in powr 2.582));
                   delta_p_sq = length_ft * (term_in_parens powr (1 / 0.522));
                   p2_sq = p1_sq - delta_p_sq
               in if p2_sq < 0 then - P_ATM_PSIA else sqrt p2_sq - P_ATM_PSIA
             else upstreamPressure_psig);
          deltaP_psi = upstreamPressure_psig - p_out_psig;
          p_out_abs_psia = p_out_psig + P_ATM_PSIA;
          p_avg_abs_psia = (p_in_abs_psia + p_out_abs_psia) / 2;
          q_acfm = flowScfm * (P_ATM_PSIA / p_avg_abs_psia);
          q_cfs = q_acfm / 60;
          v_fts = q_cfs / area_ft2
      in (deltaP_psi, p_out_psig, v_fts))"

text \<open>
  The variables that the Darcy-Weisbach loop assigns (prefixed \<open>var_\<close>).
  \<^verbatim>\<open>v_fts\<close> and \<^verbatim>\<open>deltaP_psi\<close> are declared without a value and first assigned in the
  loop; they start at \<open>0\<close> here and are never read before the first pass.
\<close>

record DarcyVars =
  var_v_fts :: real
  var_re :: real
  var_f :: real
  var_deltaP_psi :: real
  var_p_out_psig_iter :: real

text \<open>
  One pass of the loop body (\<^verbatim>\<open>sizePipe\<close> lines 112 to 124, \<^verbatim>\<open>calculateHeaderSizing\<close>
  lines 250 to 262: again the same text).
\<close>

definition darcyPass ::
  "GasProperties \<Rightarrow> real \<Rightarrow> real \<Rightarrow> real \<Rightarrow> real \<Rightarrow> real \<Rightarrow> real \<Rightarrow> real \<Rightarrow> real \<Rightarrow> DarcyVars" where
  "darcyPass GAS airTemperature_F upstreamPressure_psig flowScfm length_ft pipeRoughness_ft
       d_ft area_ft2 p_out_psig_prev =
     (let t_abs_R = toAbsRankine airTemperature_F;
          p_in_abs_psia = upstreamPressure_psig + P_ATM_PSIA;
          p_out_abs_iter = p_out_psig_prev + P_ATM_PSIA;
          p_avg_abs_iter = (p_in_abs_psia + p_out_abs_iter) / 2;
          rho_iter = (p_avg_abs_iter * 144) / (gas_R GAS * t_abs_R);
          q_acfm_iter = flowScfm * (P_ATM_PSIA / p_avg_abs_iter);
          q_cfs_iter = q_acfm_iter / 60;
          v = q_cfs_iter / area_ft2;
          r = (v * d_ft) / gas_nu GAS;
          ff = swameeJainFrictionFactor pipeRoughness_ft d_ft r;
          deltaP_lbf_ft2 = ff * (length_ft / d_ft) * (rho_iter * v * v) / (2 * G_C_LBM_FT_LBF_S2);
          dp = deltaP_lbf_ft2 / 144
      in \<lparr> var_v_fts = v, var_re = r, var_f = ff, var_deltaP_psi = dp,
           var_p_out_psig_iter = upstreamPressure_psig - dp \<rparr>)"

text \<open>\<^verbatim>\<open>for (let i = 0; i < 5; i++) { ... }\<close> over a pass \<open>body\<close>.\<close>

function darcyLoop :: "(real \<Rightarrow> DarcyVars) \<Rightarrow> nat \<Rightarrow> DarcyVars \<Rightarrow> DarcyVars" where
  "darcyLoop body i vars =
     (if i < 5 then darcyLoop body (i + 1) (body (var_p_out_psig_iter vars)) else vars)"
  by pat_completeness auto
termination
  by (relation "measure (\<lambda>(body, i, vars). 5 - i)") auto

text \<open>The whole iterative branch, from the seed of the outlet pressure.\<close>

definition darcyBranch ::
  "GasProperties \<Rightarrow> real \<Rightarrow> real \<Rightarrow> real \<Rightarrow> real \<Rightarrow> real \<Rightarrow> real \<Rightarrow> real \<Rightarrow> real \<Rightarrow> DarcyVars" where
  "darcyBranch GAS airTemperature_F upstreamPressure_psig flowScfm length_ft pipeRoughness_ft
       d_ft area_ft2 seed =
     darcyLoop
       (darcyPass GAS airTemperature_F upstreamPressure_psig flowScfm length_ft
          pipeRoughness_ft d_ft area_ft2)
       0
       \<lparr> var_v_fts = 0, var_re = 0, var_f = 0, var_deltaP_psi = 0,
         var_p_out_psig_iter = seed \<rparr>"

subsection \<open>The generic evaluator \<^verbatim>\<open>sizePipe\<close> (lines 39 to 187)\<close>

text \<open>
  The body of the loop over the candidates, for a pipe that is selected (lines 66 to 146):
  the row that is pushed. Parameters whose source name is also a field name carry a
  prime.
\<close>

definition sizePipeRow ::
  "real \<Rightarrow> real \<Rightarrow> real \<Rightarrow> real \<Rightarrow> real \<Rightarrow> real \<Rightarrow> real \<Rightarrow> GasType \<Rightarrow> PipeSize \<Rightarrow> SizingResultRow" where
  "sizePipeRow flowScfm length_ft upstreamPressure_psig requiredOutletPressure_psig
       maxVelocity_fts airTemperature_F pipeRoughness_ft gasType' pipe =
     (let GAS = GAS_PROPERTIES gasType';
          allowedDeltaP = max (1 / 10 ^ 6) (upstreamPressure_psig - requiredOutletPressure_psig);
          d_in = PipeSize.id_in pipe;
          d_ft = d_in / 12;
          area_ft2 = (pi * d_ft * d_ft) / 4;
          (deltaP_psi, p_out_psig, v_fts) =
            (if gasType' = naturalGas then
               ifgcBranch flowScfm length_ft upstreamPressure_psig d_in area_ft2
             else
               let vars = darcyBranch GAS airTemperature_F upstreamPressure_psig flowScfm
                            length_ft pipeRoughness_ft d_ft area_ft2 requiredOutletPressure_psig
               in (var_deltaP_psi vars, var_p_out_psig_iter vars, var_v_fts vars));
          velocityOk = (v_fts \<le> maxVelocity_fts);
          pressureOk = (deltaP_psi \<le> allowedDeltaP);
          status' =
            (if \<not> velocityOk \<and> \<not> pressureOk then High_velocity_and_Excessive_dP
             else if \<not> velocityOk then High_velocity
             else if \<not> pressureOk then Excessive_dP
             else OK)
      in \<lparr> SizingResultRow.nominal = PipeSize.nominal pipe,
           SizingResultRow.id_in = PipeSize.id_in pipe,
           SizingResultRow.velocity = v_fts,
           SizingResultRow.deltaP = deltaP_psi,
           SizingResultRow.outletPressure = None,
           SizingResultRow.status = status',
           SizingResultRow.severity =
             Some (calculateSeverity (status' = OK) v_fts maxVelocity_fts deltaP_psi allowedDeltaP) \<rparr>)"

text \<open>
  \<^verbatim>\<open>for (const pipe of candidatePipes) { if (!pipe.selected) continue; ...; results.push(row) }\<close>
\<close>

fun sizePipeLoop ::
  "(PipeSize \<Rightarrow> SizingResultRow) \<Rightarrow> PipeSize list \<Rightarrow> SizingResultRow list \<Rightarrow> SizingResultRow list" where
  "sizePipeLoop row [] results = results"
| "sizePipeLoop row (pipe # rest) results =
     (if \<not> selected pipe then sizePipeLoop row rest results
      else sizePipeLoop row rest (results @ [row pipe]))"

definition sizePipe ::
  "real \<Rightarrow> real \<Rightarrow> real \<Rightarrow> real \<Rightarrow> real \<Rightarrow> real \<Rightarrow> real \<Rightarrow> PipeSize list \<Rightarrow> GasType \<Rightarrow> SizePipeResult" where
  "sizePipe flowScfm length_ft upstreamPressure_psig requiredOutletPressure_psig
       maxVelocity_fts airTemperature_F pipeRoughness_ft candidatePipes gasType' =
     (if flowScfm \<le> 0 then
        \<lparr> table = [], recommended = ''N/A (Inactive)'', SizePipeResult.velocity = 0,
          SizePipeResult.deltaP = 0, SizePipeResult.status = Inactive \<rparr>
      else
        let results =
              sizePipeLoop
                (sizePipeRow flowScfm length_ft upstreamPressure_psig requiredOutletPressure_psig
                   maxVelocity_fts airTemperature_F pipeRoughness_ft gasType')
                candidatePipes [];
            okSizes = filter (\<lambda>r. SizingResultRow.status r = OK) results;
            recommendedSize' =
              (if length okSizes > 0 then SizingResultRow.nominal (okSizes ! 0)
               else ''No feasible size'');
            recommendedResult =
              (case find (\<lambda>r. SizingResultRow.nominal r = recommendedSize') results of
                 Some r \<Rightarrow> Some r
               | None \<Rightarrow> (if results = [] then None else Some (results ! 0)))
        in \<lparr> table = results,
             recommended = recommendedSize',
             SizePipeResult.velocity =
               (case recommendedResult of None \<Rightarrow> 0 | Some r \<Rightarrow> SizingResultRow.velocity r),
             SizePipeResult.deltaP =
               (case recommendedResult of None \<Rightarrow> 0 | Some r \<Rightarrow> SizingResultRow.deltaP r),
             SizePipeResult.status =
               (case recommendedResult of None \<Rightarrow> No_feasible_size
                | Some r \<Rightarrow> SizingResultRow.status r) \<rparr>)"

subsection \<open>\<^verbatim>\<open>calculateHeaderSizing\<close> (lines 192 to 331)\<close>

text \<open>The row pushed for one selected pipe (lines 209 to 284).\<close>

definition headerRow :: "real \<Rightarrow> SystemInputs \<Rightarrow> HeaderGeometry \<Rightarrow> PipeSize \<Rightarrow> SizingResultRow" where
  "headerRow designScfm' system geometry pipe =
     (let GAS = GAS_PROPERTIES (gasType system);
          d_in = PipeSize.id_in pipe;
          d_ft = d_in / 12;
          area_ft2 = (pi * d_ft * d_ft) / 4;
          (deltaP_psi, p_out_psig, v_fts) =
            (if gasType system = naturalGas then
               ifgcBranch designScfm' (headerLength geometry) (inletPressure system) d_in area_ft2
             else
               let vars = darcyBranch GAS (airTemperature geometry) (inletPressure system)
                            designScfm' (headerLength geometry) (pipeRoughness geometry)
                            d_ft area_ft2 (inletPressure system)
               in (var_deltaP_psi vars, var_p_out_psig_iter vars, var_v_fts vars));
          pressureOk = (p_out_psig \<ge> minOutletPressure system);
          velocityOk = (v_fts \<le> maxLineVelocity geometry);
          status0 = OK;
          status1 = (if \<not> pressureOk then Insufficient_outlet_pressure else status0);
          status2 = (if \<not> velocityOk then High_velocity else status1);
          status' =
            (if \<not> pressureOk \<and> \<not> velocityOk then High_velocity_and_Excessive_dP else status2)
      in \<lparr> SizingResultRow.nominal = PipeSize.nominal pipe,
           SizingResultRow.id_in = d_in,
           SizingResultRow.velocity = v_fts,
           SizingResultRow.deltaP = deltaP_psi,
           SizingResultRow.outletPressure = Some p_out_psig,
           SizingResultRow.status = status',
           SizingResultRow.severity =
             Some (calculateSeverity (status' = OK) v_fts (maxLineVelocity geometry) deltaP_psi
                     (inletPressure system - minOutletPressure system)) \<rparr>)"

definition calculateHeaderSizing ::
  "real \<Rightarrow> SystemInputs \<Rightarrow> HeaderGeometry \<Rightarrow> PipeSize list \<Rightarrow> HeaderResults option" where
  "calculateHeaderSizing designScfm' system geometry pipes =
     (let selectedPipes = filter selected pipes
      in if length selectedPipes = 0 \<or> designScfm' \<le> 0 then None
         else
           let comparisonTable' = map (headerRow designScfm' system geometry) selectedPipes;
               okSizes = filter (\<lambda>r. SizingResultRow.status r = OK) comparisonTable';
               recommendedSize' =
                 (if length okSizes > 0 then SizingResultRow.nominal (okSizes ! 0)
                  else ''No feasible size'');
               recommendedResult =
                 find (\<lambda>r. SizingResultRow.nominal r = recommendedSize') comparisonTable'
           in Some
                \<lparr> HeaderResults.recommendedSize = recommendedSize',
                  HeaderResults.outletPressure =
                    (case recommendedResult of None \<Rightarrow> 0
                     | Some r \<Rightarrow>
                         (case SizingResultRow.outletPressure r of None \<Rightarrow> 0 | Some p \<Rightarrow> p)),
                  designScfm = designScfm',
                  HeaderResults.velocity =
                    (case recommendedResult of None \<Rightarrow> 0 | Some r \<Rightarrow> SizingResultRow.velocity r),
                  HeaderResults.comparisonTable = comparisonTable' \<rparr>)"

subsection \<open>\<^verbatim>\<open>calculateTankMetrics\<close> (lines 336 to 375)\<close>

definition calculateTankMetrics :: "SystemInputs \<Rightarrow> real \<Rightarrow> real \<Rightarrow> TankMetrics option" where
  "calculateTankMetrics system totalDesignDemandScfm' capacityMarginOrDeficitScfm' =
     (if tankVolume system \<le> 0 then None
      else
        let p_in_abs_psia = inletPressure system + P_ATM_PSIA;
            p_min_abs_psia = minOutletPressure system + P_ATM_PSIA;
            v_tank_ft3 = tankVolume system / GALLONS_PER_FT3;
            equivalentStorageScf' = v_tank_ft3 * (p_in_abs_psia - p_min_abs_psia) / P_ATM_PSIA
        in if totalDesignDemandScfm' \<le> 0 then
             Some \<lparr> equivalentStorageScf = equivalentStorageScf',
                    referenceFlowScfm = 0,
                    coverageTimeMinutes = Infinity,
                    isCoveringDeficit = False \<rparr>
           else
             let isCoveringDeficit' = (capacityMarginOrDeficitScfm' < 0);
                 referenceFlowScfm' =
                   (if isCoveringDeficit' then \<bar>capacityMarginOrDeficitScfm'\<bar>
                    else totalDesignDemandScfm');
                 coverageTimeMinutes' =
                   (if referenceFlowScfm' > 0 then Finite (equivalentStorageScf' / referenceFlowScfm')
                    else Infinity)
             in Some \<lparr> equivalentStorageScf = equivalentStorageScf',
                       referenceFlowScfm = referenceFlowScfm',
                       coverageTimeMinutes = coverageTimeMinutes',
                       isCoveringDeficit = isCoveringDeficit' \<rparr>)"

subsection \<open>\<^verbatim>\<open>calculateDropsSizing\<close> (lines 381 to 483)\<close>

text \<open>The function mapped over \<^verbatim>\<open>drop.subDrops\<close> (lines 428 to 464).\<close>

definition sizeSubDrop ::
  "SystemInputs \<Rightarrow> HeaderGeometry \<Rightarrow> PipeSize list \<Rightarrow> real \<Rightarrow> SubDrop \<Rightarrow> SubDropResult" where
  "sizeSubDrop system geometry selectedPipes flowDivisor sd =
     (let subDropDesignFlowScfm =
            (or0 (SubDrop.reqFlow sd) * demandSafetyFactor system) / flowDivisor;
          subDropSizing =
            sizePipe subDropDesignFlowScfm (SubDrop.length' sd) (inletPressure system)
              (SubDrop.reqPressure sd) (maxLineVelocity geometry) (airTemperature geometry)
              (pipeRoughness geometry) selectedPipes (gasType system);
          okOptions = filter (\<lambda>r. severity r = Some Sev_ok) (table subDropSizing);
          sizingOptions' =
            (if length okOptions > 0 then take 3 okOptions else take 3 (table subDropSizing))
      in \<lparr> SubDropResult.name = SubDrop.name sd,
           SubDropResult.reqPressure = SubDrop.reqPressure sd,
           SubDropResult.reqFlow = SubDrop.reqFlow sd,
           SubDropResult.length' = SubDrop.length' sd,
           SubDropResult.recommendedSize = recommended subDropSizing,
           SubDropResult.status = SizePipeResult.status subDropSizing,
           SubDropResult.velocity = SizePipeResult.velocity subDropSizing,
           SubDropResult.deltaP = SizePipeResult.deltaP subDropSizing,
           sizingOptions = sizingOptions' \<rparr>)"

text \<open>The function mapped over \<^verbatim>\<open>drops\<close> (lines 394 to 481).\<close>

definition sizeDrop ::
  "SystemInputs \<Rightarrow> HeaderGeometry \<Rightarrow> PipeSize list \<Rightarrow> real \<Rightarrow> Drop \<Rightarrow> DropResult" where
  "sizeDrop system geometry selectedPipes flowDivisor drop' =
     (let subDropTotalFlow' =
            foldl (\<lambda>sum sd. sum + or0 (SubDrop.reqFlow sd)) 0 (subDrops drop');
          usedFlow' = max (or0 (Drop.reqFlow drop')) subDropTotalFlow';
          designFlowScfm = (usedFlow' * demandSafetyFactor system) / flowDivisor;
          dropSizing =
            sizePipe designFlowScfm (Drop.length' drop') (inletPressure system)
              (Drop.reqPressure drop') (maxLineVelocity geometry) (airTemperature geometry)
              (pipeRoughness geometry) selectedPipes (gasType system);
          subDropResults' =
            map (sizeSubDrop system geometry selectedPipes flowDivisor) (subDrops drop')
      in \<lparr> DropResult.id' = Drop.id' drop',
           DropResult.name = Drop.name drop',
           DropResult.length' = Drop.length' drop',
           DropResult.reqPressure = Drop.reqPressure drop',
           DropResult.reqFlow = Drop.reqFlow drop',
           subDropTotalFlow = subDropTotalFlow',
           usedFlow = usedFlow',
           isSizedOnSubDrops = (subDropTotalFlow' > Drop.reqFlow drop' \<and> Drop.reqFlow drop' \<ge> 0),
           DropResult.recommendedSize = recommended dropSizing,
           DropResult.velocity = SizePipeResult.velocity dropSizing,
           DropResult.deltaP = SizePipeResult.deltaP dropSizing,
           DropResult.comparisonTable = table dropSizing,
           subDropResults = subDropResults' \<rparr>)"

definition calculateDropsSizing ::
  "Drop list \<Rightarrow> SystemInputs \<Rightarrow> HeaderGeometry \<Rightarrow> PipeSize list \<Rightarrow> DropResult list" where
  "calculateDropsSizing drops' system geometry pipes =
     (let selectedPipes = filter selected pipes
      in if length selectedPipes = 0 then []
         else
           let flowDivisor = (if gasType system = naturalGas then 60 else 1)
           in map (sizeDrop system geometry selectedPipes flowDivisor) drops')"

subsection \<open>\<^verbatim>\<open>performAllCalculations\<close> (lines 488 to 540)\<close>

definition performAllCalculations ::
  "SystemInputs \<Rightarrow> HeaderGeometry \<Rightarrow> PipeSize list \<Rightarrow> Drop list \<Rightarrow> CalculationResults" where
  "performAllCalculations systemInputs headerGeometry candidatePipes drops' =
     (let flowDivisor = (if gasType systemInputs = naturalGas then 60 else 1);
          dropResults = calculateDropsSizing drops' systemInputs headerGeometry candidatePipes;
          totalDemandScfm' = foldl (\<lambda>sum dr. sum + (usedFlow dr / flowDivisor)) 0 dropResults;
          totalDesignDemandScfm' = totalDemandScfm' * demandSafetyFactor systemInputs;
          availableFlowScfm = availableCompressorFlow systemInputs / flowDivisor;
          (capacityStatus', capacityMarginOrDeficitScfm') =
            (if totalDesignDemandScfm' > 0 then
               let margin = availableFlowScfm - totalDesignDemandScfm'
               in (if margin \<ge> 0 then Cap_OK else SHORTFALL, margin)
             else (No_demand, availableFlowScfm));
          headerDesignScfm' = min availableFlowScfm totalDesignDemandScfm';
          headerResults =
            calculateHeaderSizing headerDesignScfm' systemInputs headerGeometry candidatePipes;
          tankMetrics' =
            calculateTankMetrics systemInputs totalDesignDemandScfm' capacityMarginOrDeficitScfm'
      in \<lparr> totalDemandScfm = totalDemandScfm',
           totalDesignDemandScfm = totalDesignDemandScfm',
           capacityStatus = capacityStatus',
           capacityMarginOrDeficitScfm = capacityMarginOrDeficitScfm',
           headerDesignScfm = headerDesignScfm',
           header = headerResults,
           drops = dropResults,
           tankMetrics = tankMetrics' \<rparr>)"

subsection \<open>A predicate on rows, and concrete inputs\<close>

text \<open>
  The severity tier and the status of a row agree: the tier is \<open>ok\<close> exactly for status
  \<open>OK\<close>, and a row of any other status carries \<open>warn\<close> or \<open>bad\<close>.
\<close>

definition row_tiers_agree :: "SizingResultRow \<Rightarrow> bool" where
  "row_tiers_agree r =
     ((severity r = Some Sev_ok) = (SizingResultRow.status r = OK) \<and>
      (SizingResultRow.status r = OK \<or> severity r = Some Sev_warn \<or> severity r = Some Sev_bad))"

text \<open>The initial form values of the application, with three candidates of its list.\<close>

definition example_system :: SystemInputs where
  "example_system =
     \<lparr> inletPressure = 130, availableCompressorFlow = 500, minOutletPressure = 90,
       maxTypicalOutletPressure = 110, demandSafetyFactor = 1.2, tankVolume = 0,
       gasType = air \<rparr>"

definition example_geometry :: HeaderGeometry where
  "example_geometry =
     \<lparr> headerLength = 1000, maxLineVelocity = 50, pipeRoughness = 0.00015,
       airTemperature = 70 \<rparr>"

definition example_pipes :: "PipeSize list" where
  "example_pipes =
     [\<lparr> PipeSize.nominal = ''1/4 in'', PipeSize.id_in = 0.364, selected = True \<rparr>,
      \<lparr> PipeSize.nominal = ''1/2 in'', PipeSize.id_in = 0.622, selected = False \<rparr>,
      \<lparr> PipeSize.nominal = ''2 in'', PipeSize.id_in = 2.067, selected = True \<rparr>]"

text \<open>A drop that declares 50 and feeds two sub-drops of 30 and 40.\<close>

definition example_drops :: "Drop list" where
  "example_drops =
     [\<lparr> Drop.id' = ''drop-1'', Drop.name = ''Drop 1'', Drop.length' = 100,
        Drop.reqPressure = 95, Drop.reqFlow = 50,
        subDrops =
          [\<lparr> SubDrop.id' = ''sub-1'', SubDrop.name = ''Sub 1'', SubDrop.length' = 20,
             SubDrop.reqPressure = 90, SubDrop.reqFlow = 30 \<rparr>,
           \<lparr> SubDrop.id' = ''sub-2'', SubDrop.name = ''Sub 2'', SubDrop.length' = 20,
             SubDrop.reqPressure = 90, SubDrop.reqFlow = 40 \<rparr>] \<rparr>]"

text \<open>A drop whose only sub-drop declares no flow.\<close>

definition inactive_sub_drops :: "Drop list" where
  "inactive_sub_drops =
     [\<lparr> Drop.id' = ''drop-1'', Drop.name = ''Drop 1'', Drop.length' = 100,
        Drop.reqPressure = 95, Drop.reqFlow = 100,
        subDrops =
          [\<lparr> SubDrop.id' = ''sub-1'', SubDrop.name = ''Sub 1'', SubDrop.length' = 20,
             SubDrop.reqPressure = 90, SubDrop.reqFlow = 0 \<rparr>] \<rparr>]"

text \<open>The same candidates with every box unticked.\<close>

definition unselected_pipes :: "PipeSize list" where
  "unselected_pipes =
     [\<lparr> PipeSize.nominal = ''1/4 in'', PipeSize.id_in = 0.364, selected = False \<rparr>,
      \<lparr> PipeSize.nominal = ''1/2 in'', PipeSize.id_in = 0.622, selected = False \<rparr>,
      \<lparr> PipeSize.nominal = ''2 in'', PipeSize.id_in = 2.067, selected = False \<rparr>]"

definition negative_factor_system :: SystemInputs where
  "negative_factor_system = example_system \<lparr> demandSafetyFactor := - 1 \<rparr>"

definition tank_system :: SystemInputs where
  "tank_system = example_system \<lparr> tankVolume := 748 \<rparr>"

text \<open>A low-pressure natural-gas system, a long run, and a candidate of one inch bore.\<close>

definition fuel_system :: SystemInputs where
  "fuel_system =
     \<lparr> inletPressure = 5, availableCompressorFlow = 6000, minOutletPressure = 2,
       maxTypicalOutletPressure = 4, demandSafetyFactor = 1.2, tankVolume = 0,
       gasType = naturalGas \<rparr>"

definition long_geometry :: HeaderGeometry where
  "long_geometry =
     \<lparr> headerLength = 10000, maxLineVelocity = 50, pipeRoughness = 0.00015,
       airTemperature = 70 \<rparr>"

definition one_inch :: PipeSize where
  "one_inch = \<lparr> PipeSize.nominal = ''1 in'', PipeSize.id_in = 1, selected = True \<rparr>"

text \<open>The quarter inch candidate of the application's list, and a header of 3000 ft.\<close>

definition quarter_inch :: PipeSize where
  "quarter_inch = \<lparr> PipeSize.nominal = ''1/4 in'', PipeSize.id_in = 0.364, selected = True \<rparr>"

definition long_header_geometry :: HeaderGeometry where
  "long_header_geometry = example_geometry \<lparr> headerLength := 3000 \<rparr>"

text \<open>
  The rows of a header result (none when the result is absent), and the columns of a row
  that the flow equations determine.
\<close>

definition header_rows :: "HeaderResults option \<Rightarrow> SizingResultRow list" where
  "header_rows h = (case h of None \<Rightarrow> [] | Some r \<Rightarrow> HeaderResults.comparisonTable r)"

definition flow_columns :: "SizingResultRow \<Rightarrow> string \<times> real \<times> real" where
  "flow_columns r = (SizingResultRow.nominal r, SizingResultRow.velocity r, SizingResultRow.deltaP r)"

section \<open>Facts about the embedding\<close>

subsection \<open>Folds and the iteration\<close>

lemma or0_id: "or0 x = x"
  by (simp add: or0_def)

lemma sizePipeLoop_append:
  "sizePipeLoop row ps acc = acc @ map row (filter selected ps)"
  by (induction ps arbitrary: acc) auto

lemma foldl_plus_sum_list: "foldl (\<lambda>s x. s + g x) a xs = a + sum_list (map g xs)" for a :: real
  by (induction xs arbitrary: a) auto

text \<open>
  The loop of five passes, unrolled.
\<close>

lemma darcyLoop_unroll:
  "darcyLoop body 0 vars =
     body (var_p_out_psig_iter (body (var_p_out_psig_iter (body (var_p_out_psig_iter
       (body (var_p_out_psig_iter (body (var_p_out_psig_iter vars)))))))))"
proof -
  have 5: "darcyLoop body 5 w = w" for w by simp
  have 4: "darcyLoop body 4 w = body (var_p_out_psig_iter w)" for w
    using 5 by (subst darcyLoop.simps) simp
  have 3: "darcyLoop body 3 w = darcyLoop body 4 (body (var_p_out_psig_iter w))" for w
    by (subst darcyLoop.simps) simp
  have 2: "darcyLoop body 2 w = darcyLoop body 3 (body (var_p_out_psig_iter w))" for w
    by (subst darcyLoop.simps) simp
  have 1: "darcyLoop body 1 w = darcyLoop body 2 (body (var_p_out_psig_iter w))" for w
    by (subst darcyLoop.simps) simp
  have 0: "darcyLoop body 0 w = darcyLoop body 1 (body (var_p_out_psig_iter w))" for w
    by (subst darcyLoop.simps) simp
  show ?thesis by (simp only: 0 1 2 3 4)
qed

subsection \<open>Tables\<close>

lemma sizePipe_table:
  "table (sizePipe q L up req mv T rough ps g) =
     (if q \<le> 0 then [] else map (sizePipeRow q L up req mv T rough g) (filter selected ps))"
  by (simp add: sizePipe_def sizePipeLoop_append Let_def)

lemma sizePipe_filter_idem:
  "sizePipe q L up req mv T rough (filter selected ps) g = sizePipe q L up req mv T rough ps g"
  by (simp add: sizePipe_def sizePipeLoop_append Let_def)

lemma header_table:
  "calculateHeaderSizing q sys geo ps = Some h \<Longrightarrow>
   HeaderResults.comparisonTable h = map (headerRow q sys geo) (filter selected ps)
   \<and> filter selected ps \<noteq> [] \<and> 0 < q"
  by (auto simp: calculateHeaderSizing_def Let_def split: if_splits)

lemma perform_drops:
  "drops (performAllCalculations sys geo ps ds) = calculateDropsSizing ds sys geo ps"
  by (simp add: performAllCalculations_def Let_def split: prod.splits)

lemma perform_header:
  "header (performAllCalculations sys geo ps ds) =
     calculateHeaderSizing (headerDesignScfm (performAllCalculations sys geo ps ds)) sys geo ps"
  by (simp add: performAllCalculations_def Let_def split: prod.splits)

lemma sizeSubDrop_options:
  "sizingOptions (sizeSubDrop sys geo sel fd sd) =
     (let t = table (sizePipe ((SubDrop.reqFlow sd * demandSafetyFactor sys) / fd)
                (SubDrop.length' sd) (inletPressure sys) (SubDrop.reqPressure sd)
                (maxLineVelocity geo) (airTemperature geo) (pipeRoughness geo) sel (gasType sys))
      in if filter (\<lambda>r. severity r = Some Sev_ok) t \<noteq> []
         then take 3 (filter (\<lambda>r. severity r = Some Sev_ok) t) else take 3 t)"
  by (simp add: sizeSubDrop_def Let_def or0_id)

subsection \<open>Severity tiers\<close>

lemma sizePipeRow_tiers: "row_tiers_agree (sizePipeRow q L up req mv T rough g p)"
  by (simp add: row_tiers_agree_def sizePipeRow_def Let_def calculateSeverity_def split: prod.splits)

lemma headerRow_tiers: "row_tiers_agree (headerRow q sys geo p)"
  by (simp add: row_tiers_agree_def headerRow_def Let_def calculateSeverity_def split: prod.splits)

lemma sizePipe_tiers: "r \<in> set (table (sizePipe q L up req mv T rough ps g)) \<Longrightarrow> row_tiers_agree r"
  by (auto simp: sizePipe_table sizePipeRow_tiers split: if_splits)

lemma header_tiers:
  "calculateHeaderSizing q sys geo ps = Some h \<Longrightarrow> r \<in> set (HeaderResults.comparisonTable h) \<Longrightarrow>
   row_tiers_agree r"
  by (auto dest!: header_table simp: headerRow_tiers)

lemma sizeSubDrop_tiers:
  "r \<in> set (sizingOptions (sizeSubDrop sys geo sel fd sd)) \<Longrightarrow> row_tiers_agree r"
  by (auto simp: sizeSubDrop_options Let_def split: if_splits dest!: in_set_takeD intro: sizePipe_tiers)

lemma sizeDrop_tiers:
  "r \<in> set (DropResult.comparisonTable (sizeDrop sys geo sel fd d)) \<Longrightarrow> row_tiers_agree r"
  by (auto simp: sizeDrop_def Let_def intro: sizePipe_tiers)

lemma sizeDrop_sub_tiers:
  "s \<in> set (subDropResults (sizeDrop sys geo sel fd d)) \<Longrightarrow> r \<in> set (sizingOptions s) \<Longrightarrow>
   row_tiers_agree r"
  by (auto simp: sizeDrop_def Let_def intro: sizeSubDrop_tiers)

subsection \<open>The recommended row\<close>

lemma find_filter_hd:
  "find P xs = (case filter P xs of [] \<Rightarrow> None | x # _ \<Rightarrow> Some x)"
  by (induction xs) auto

lemma find_of_filter_nonempty:
  "filter P xs \<noteq> [] \<Longrightarrow> lab (filter P xs ! 0) = (case find P xs of Some r \<Rightarrow> lab r | None \<Rightarrow> s)"
  by (simp add: find_filter_hd split: list.splits)

lemma find_of_filter_empty:
  "filter P xs = [] \<Longrightarrow> find P xs = None"
  by (simp add: find_filter_hd)

lemma find_label_absent:
  "\<forall>r \<in> set xs. lab r \<noteq> s \<Longrightarrow> find (\<lambda>r. lab r = s) xs = None"
  by (simp add: find_None_iff)

lemma sizePipe_recommended:
  "0 < q \<Longrightarrow>
   recommended (sizePipe q L up req mv T rough ps g) =
     (case find (\<lambda>r. SizingResultRow.status r = OK) (table (sizePipe q L up req mv T rough ps g)) of
        Some r \<Rightarrow> SizingResultRow.nominal r | None \<Rightarrow> ''No feasible size'')"
proof (cases "filter (\<lambda>r. SizingResultRow.status r = OK)
                (sizePipeLoop (sizePipeRow q L up req mv T rough g) ps []) = []")
  case True
  assume "0 < q"
  then show ?thesis using True find_of_filter_empty [OF True]
    by (simp add: sizePipe_def Let_def)
next
  case False
  assume "0 < q"
  then show ?thesis
    using False find_of_filter_nonempty [OF False, of SizingResultRow.nominal "''No feasible size''"]
    by (simp add: sizePipe_def Let_def)
qed

lemma sizePipe_representative:
  assumes "0 < q"
    and "\<forall>r \<in> set (table (sizePipe q L up req mv T rough ps g)).
           SizingResultRow.nominal r \<noteq> recommended (sizePipe q L up req mv T rough ps g)"
    and "table (sizePipe q L up req mv T rough ps g) \<noteq> []"
  shows "SizePipeResult.velocity (sizePipe q L up req mv T rough ps g)
           = SizingResultRow.velocity (hd (table (sizePipe q L up req mv T rough ps g))) \<and>
         SizePipeResult.deltaP (sizePipe q L up req mv T rough ps g)
           = SizingResultRow.deltaP (hd (table (sizePipe q L up req mv T rough ps g))) \<and>
         SizePipeResult.status (sizePipe q L up req mv T rough ps g)
           = SizingResultRow.status (hd (table (sizePipe q L up req mv T rough ps g)))"
proof -
  let ?t = "sizePipeLoop (sizePipeRow q L up req mv T rough g) ps []"
  define s where "s = recommended (sizePipe q L up req mv T rough ps g)"
  have t: "table (sizePipe q L up req mv T rough ps g) = ?t"
    using assms(1) by (simp add: sizePipe_def Let_def)
  have f: "find (\<lambda>r. SizingResultRow.nominal r = s) ?t = None"
    using assms(2) unfolding t s_def by (rule find_label_absent)
  have ne: "?t \<noteq> []" using assms(3) unfolding t .
  have r: "sizePipe q L up req mv T rough ps g =
     \<lparr> table = ?t, recommended = s,
       SizePipeResult.velocity =
         (case (case find (\<lambda>r. SizingResultRow.nominal r = s) ?t of Some r \<Rightarrow> Some r
                | None \<Rightarrow> (if ?t = [] then None else Some (?t ! 0))) of
            None \<Rightarrow> 0 | Some r \<Rightarrow> SizingResultRow.velocity r),
       SizePipeResult.deltaP =
         (case (case find (\<lambda>r. SizingResultRow.nominal r = s) ?t of Some r \<Rightarrow> Some r
                | None \<Rightarrow> (if ?t = [] then None else Some (?t ! 0))) of
            None \<Rightarrow> 0 | Some r \<Rightarrow> SizingResultRow.deltaP r),
       SizePipeResult.status =
         (case (case find (\<lambda>r. SizingResultRow.nominal r = s) ?t of Some r \<Rightarrow> Some r
                | None \<Rightarrow> (if ?t = [] then None else Some (?t ! 0))) of
            None \<Rightarrow> No_feasible_size | Some r \<Rightarrow> SizingResultRow.status r) \<rparr>"
    unfolding s_def using assms(1) by (simp add: sizePipe_def Let_def)
  show ?thesis
    unfolding t by (subst r, subst r, subst r) (simp add: f ne hd_conv_nth)
qed

lemma header_recommended:
  assumes "calculateHeaderSizing q sys geo ps = Some h"
  shows "HeaderResults.recommendedSize h =
     (case find (\<lambda>r. SizingResultRow.status r = OK) (HeaderResults.comparisonTable h) of
        Some r \<Rightarrow> SizingResultRow.nominal r | None \<Rightarrow> ''No feasible size'')"
proof -
  let ?t = "map (headerRow q sys geo) (filter selected ps)"
  have h: "HeaderResults.comparisonTable h = ?t"
    "HeaderResults.recommendedSize h =
       (if length (filter (\<lambda>r. SizingResultRow.status r = OK) ?t) > 0
        then SizingResultRow.nominal (filter (\<lambda>r. SizingResultRow.status r = OK) ?t ! 0)
        else ''No feasible size'')"
    using assms
    by (auto simp: calculateHeaderSizing_def Let_def filter_map comp_def split: if_splits)
  show ?thesis
  proof (cases "filter (\<lambda>r. SizingResultRow.status r = OK) ?t = []")
    case True
    have "HeaderResults.recommendedSize h = ''No feasible size''"
      unfolding h(2) True by simp
    then show ?thesis
      unfolding h(1) find_of_filter_empty [OF True] by simp
  next
    case False
    then have "length (filter (\<lambda>r. SizingResultRow.status r = OK) ?t) > 0"
      by (metis length_greater_0_conv)
    then have "HeaderResults.recommendedSize h =
        SizingResultRow.nominal (filter (\<lambda>r. SizingResultRow.status r = OK) ?t ! 0)"
      unfolding h(2) by (simp only: if_True)
    also have "\<dots> = (case find (\<lambda>r. SizingResultRow.status r = OK) ?t of
        Some r \<Rightarrow> SizingResultRow.nominal r | None \<Rightarrow> ''No feasible size'')"
      by (rule find_of_filter_nonempty [OF False])
    finally show ?thesis unfolding h(1) .
  qed
qed

lemma header_representative:
  assumes "calculateHeaderSizing q sys geo ps = Some h"
  shows "HeaderResults.velocity h =
           (case find (\<lambda>r. SizingResultRow.nominal r = HeaderResults.recommendedSize h)
                   (HeaderResults.comparisonTable h) of
              None \<Rightarrow> 0 | Some r \<Rightarrow> SizingResultRow.velocity r) \<and>
         HeaderResults.outletPressure h =
           (case find (\<lambda>r. SizingResultRow.nominal r = HeaderResults.recommendedSize h)
                   (HeaderResults.comparisonTable h) of
              None \<Rightarrow> 0
            | Some r \<Rightarrow> (case SizingResultRow.outletPressure r of None \<Rightarrow> 0 | Some p \<Rightarrow> p))"
  using assms by (auto simp: calculateHeaderSizing_def Let_def split: if_splits)

text \<open>
  What both evaluators do: whenever the comparison table is not empty, its rows are in the
  order of the selected candidates and the recommended label is the label of the first row
  of status \<open>OK\<close>, or \<open>No feasible size\<close> when no row has that status. When no row
  is \<open>OK\<close> (and no candidate is itself labelled \<open>No feasible size\<close>), \<^verbatim>\<open>sizePipe\<close> reports
  the velocity, pressure drop and status of the first row.
\<close>

lemma first_ok_row_recommended:
  "(let res = sizePipe q L up req mv T rough ps g;
        t = table res
    in t \<noteq> [] \<longrightarrow>
       map SizingResultRow.nominal t = map PipeSize.nominal (filter selected ps) \<and>
       (case find (\<lambda>r. SizingResultRow.status r = OK) t of
          Some r \<Rightarrow> recommended res = SizingResultRow.nominal r
        | None \<Rightarrow>
            recommended res = ''No feasible size'' \<and>
            ((\<forall>r \<in> set t. SizingResultRow.nominal r \<noteq> ''No feasible size'') \<longrightarrow>
               SizePipeResult.velocity res = SizingResultRow.velocity (hd t) \<and>
               SizePipeResult.deltaP res = SizingResultRow.deltaP (hd t) \<and>
               SizePipeResult.status res = SizingResultRow.status (hd t)))) \<and>
   (\<forall>h. calculateHeaderSizing q' sys geo ps = Some h \<longrightarrow>
      HeaderResults.comparisonTable h \<noteq> [] \<and>
      map SizingResultRow.nominal (HeaderResults.comparisonTable h)
        = map PipeSize.nominal (filter selected ps) \<and>
      (case find (\<lambda>r. SizingResultRow.status r = OK) (HeaderResults.comparisonTable h) of
         Some r \<Rightarrow> HeaderResults.recommendedSize h = SizingResultRow.nominal r
       | None \<Rightarrow> HeaderResults.recommendedSize h = ''No feasible size''))"
proof -
  let ?res = "sizePipe q L up req mv T rough ps g"
  have A: "map SizingResultRow.nominal (table ?res) = map PipeSize.nominal (filter selected ps) \<and>
       (case find (\<lambda>r. SizingResultRow.status r = OK) (table ?res) of
          Some r \<Rightarrow> recommended ?res = SizingResultRow.nominal r
        | None \<Rightarrow>
            recommended ?res = ''No feasible size'' \<and>
            ((\<forall>r \<in> set (table ?res). SizingResultRow.nominal r \<noteq> ''No feasible size'') \<longrightarrow>
               SizePipeResult.velocity ?res = SizingResultRow.velocity (hd (table ?res)) \<and>
               SizePipeResult.deltaP ?res = SizingResultRow.deltaP (hd (table ?res)) \<and>
               SizePipeResult.status ?res = SizingResultRow.status (hd (table ?res))))"
    if ne: "table ?res \<noteq> []"
  proof -
    from ne have q: "0 < q" by (simp add: sizePipe_table split: if_splits)
    have names: "map SizingResultRow.nominal (table ?res) = map PipeSize.nominal (filter selected ps)"
      using q by (simp add: sizePipe_table sizePipeRow_def Let_def split: prod.splits)
    show ?thesis
      using sizePipe_recommended [OF q, of L up req mv T rough ps g]
        sizePipe_representative [OF q _ ne] names
      by (simp split: option.splits)
  qed
  have B: "HeaderResults.comparisonTable h \<noteq> [] \<and>
      map SizingResultRow.nominal (HeaderResults.comparisonTable h)
        = map PipeSize.nominal (filter selected ps) \<and>
      (case find (\<lambda>r. SizingResultRow.status r = OK) (HeaderResults.comparisonTable h) of
         Some r \<Rightarrow> HeaderResults.recommendedSize h = SizingResultRow.nominal r
       | None \<Rightarrow> HeaderResults.recommendedSize h = ''No feasible size'')"
    if h: "calculateHeaderSizing q' sys geo ps = Some h" for h
  proof -
    have t: "HeaderResults.comparisonTable h = map (headerRow q' sys geo) (filter selected ps)"
      and ne: "filter selected ps \<noteq> []"
      using header_table [OF h] by auto
    have names: "map SizingResultRow.nominal (HeaderResults.comparisonTable h)
        = map PipeSize.nominal (filter selected ps)"
      by (simp add: t headerRow_def Let_def split: prod.splits)
    show ?thesis
      using header_recommended [OF h] names ne t
      by (simp split: option.splits)
  qed
  show ?thesis
    unfolding Let_def using A B by blast
qed

subsection \<open>The natural-gas branch\<close>

lemma pi_ge_3: "3 \<le> pi"
  using sin_x_le_x [of "pi / 6"] by (simp add: sin_30)

lemma powr_small_base:
  fixes x :: real
  assumes "0 < x" "x \<le> 1"
  shows "x ^ 2 \<le> x powr (1 / 0.522)"
proof -
  have "x powr 2 \<le> x powr (1 / 0.522)"
    using assms by (intro powr_mono') auto
  then show ?thesis using assms by simp
qed

lemma powr_small_base_upper:
  fixes x :: real
  assumes "0 < x" "x \<le> 1"
  shows "x powr (1 / 0.522) \<le> x"
proof -
  have "x powr (1 / 0.522) \<le> x powr 1"
    using assms by (intro powr_mono') auto
  then show ?thesis using assms by simp
qed

text \<open>
  When the squared outlet pressure is negative, the outlet pressure is \<open>- P_ATM_PSIA\<close>.
\<close>

lemma ifgc_clamped:
  assumes "0 < q"
    and "(up + P_ATM_PSIA) * (up + P_ATM_PSIA)
           - L * (((q * 60) / (2207 * (d powr 2.582))) powr (1 / 0.522)) < 0"
  shows "ifgcBranch q L up d a =
           (up + P_ATM_PSIA, - P_ATM_PSIA, q * (P_ATM_PSIA / ((up + P_ATM_PSIA) / 2)) / 60 / a)"
proof -
  have "q * (P_ATM_PSIA / ((up + P_ATM_PSIA + (- P_ATM_PSIA + P_ATM_PSIA)) / 2)) / 60 / a
      = q * (P_ATM_PSIA / ((up + P_ATM_PSIA) / 2)) / 60 / a"
    by (simp only: add.right_neutral add.left_neutral left_minus)
  then show ?thesis
    using assms unfolding ifgcBranch_def Let_def
    by (simp del: divide_divide_eq_left divide_divide_eq_right times_divide_eq_left times_divide_eq_right)
qed

lemma ifgc_deltaP_le:
  assumes "0 < q"
  shows "fst (ifgcBranch q L up d a) \<le> up + P_ATM_PSIA"
  using assms by (simp add: ifgcBranch_def Let_def)

subsection \<open>Bounds on pi\<close>

text \<open>
  The source's area of the bore is \<open>pi * d * d / 4\<close>; concrete evaluations need
  \<open>pi\<close> to three decimals. The bounds come from \<open>sin (pi / 6) = 1 / 2\<close> and the
  Maclaurin polynomial of the sine.
\<close>

lemma sum_upto_7: "(\<Sum>m<7. g m) = g 0 + g 1 + g 2 + g 3 + g 4 + g 5 + g (6::nat)" for g :: "nat \<Rightarrow> real"
  by (simp add: eval_nat_numeral)

lemma sin_coeff_values:
  "sin_coeff (Suc 0) = 1" "sin_coeff 2 = 0" "sin_coeff 3 = - 1 / 6" "sin_coeff 4 = 0"
  "sin_coeff 5 = 1 / 120" "sin_coeff 6 = 0"
  by (simp_all add: sin_coeff_def fact_numeral)

lemma sin_taylor7:
  fixes x :: real
  shows "\<bar>sin x - (x - x ^ 3 / 6 + x ^ 5 / 120)\<bar> \<le> \<bar>x\<bar> ^ 7 / 5040"
proof -
  have s: "(\<Sum>m<7. sin_coeff m * x ^ m) = x - x ^ 3 / 6 + x ^ 5 / 120"
    by (simp add: sum_upto_7 sin_coeff_values)
  have "fact 7 = (5040 :: real)"
    by (simp add: fact_numeral)
  then have e: "inverse (fact 7) * \<bar>x\<bar> ^ 7 = \<bar>x\<bar> ^ 7 / 5040"
    by (simp only: divide_inverse mult.commute)
  have "\<bar>sin x - (\<Sum>m<7. sin_coeff m * x ^ m)\<bar> \<le> inverse (fact 7) * \<bar>x\<bar> ^ 7"
    by (rule Maclaurin_sin_bound)
  then show ?thesis
    unfolding s e .
qed

lemma pi_gt_3141: "3.141 < pi"
proof (rule ccontr)
  assume "\<not> 3.141 < pi"
  then have le: "pi / 6 \<le> 3.141 / 6" by simp
  have "sin (pi / 6) \<le> sin (3.141 / 6)"
    using le pi_ge_3 by (intro sin_monotone_2pi_le) auto
  then have "1 / 2 \<le> sin (3.141 / 6 :: real)" by (simp add: sin_30)
  moreover have "sin (3.141 / 6 :: real) < 1 / 2"
  proof -
    have "sin (3.141 / 6 :: real) - (3.141 / 6 - (3.141 / 6) ^ 3 / 6 + (3.141 / 6) ^ 5 / 120)
            \<le> \<bar>3.141 / 6\<bar> ^ 7 / 5040"
      using sin_taylor7 [of "3.141 / 6"] by (simp only: abs_le_iff)
    moreover have "(3.141 / 6 - (3.141 / 6) ^ 3 / 6 + (3.141 / 6) ^ 5 / 120) + \<bar>3.141 / 6\<bar> ^ 7 / 5040
            < (1 / 2 :: real)"
      by (simp add: power_divide)
    ultimately show ?thesis by linarith
  qed
  ultimately show False by simp
qed

lemma pi_lt_3142: "pi < 3.142"
proof (rule ccontr)
  assume "\<not> pi < 3.142"
  then have le: "3.142 / 6 \<le> pi / 6" by simp
  have "sin (3.142 / 6) \<le> sin (pi / 6)"
    using le by (intro sin_monotone_2pi_le) auto
  then have "sin (3.142 / 6 :: real) \<le> 1 / 2" by (simp add: sin_30)
  moreover have "1 / 2 < sin (3.142 / 6 :: real)"
  proof -
    have "- (\<bar>3.142 / 6\<bar> ^ 7 / 5040)
            \<le> sin (3.142 / 6 :: real) - (3.142 / 6 - (3.142 / 6) ^ 3 / 6 + (3.142 / 6) ^ 5 / 120)"
      using sin_taylor7 [of "3.142 / 6"] by (simp only: abs_le_iff) linarith
    moreover have "(1 / 2 :: real)
            < (3.142 / 6 - (3.142 / 6) ^ 3 / 6 + (3.142 / 6) ^ 5 / 120) - \<bar>3.142 / 6\<bar> ^ 7 / 5040"
      by (simp add: power_divide)
    ultimately show ?thesis by linarith
  qed
  ultimately show False by simp
qed

subsection \<open>One pass of the Darcy-Weisbach iteration\<close>

lemma air_props: "gas_R (GAS_PROPERTIES air) = 53.35" "gas_nu (GAS_PROPERTIES air) = 1.6 / 10 ^ 4"
  by simp_all

lemma darcyPass_velocity:
  "var_v_fts (darcyPass GAS T up q L rough d a p)
     = q * (P_ATM_PSIA / ((up + P_ATM_PSIA + (p + P_ATM_PSIA)) / 2)) / 60 / a"
  by (simp only: darcyPass_def Let_def DarcyVars.select_convs)

lemma darcyPass_reynolds:
  "var_re (darcyPass GAS T up q L rough d a p)
     = var_v_fts (darcyPass GAS T up q L rough d a p) * d / gas_nu GAS"
  by (simp add: darcyPass_def Let_def)

lemma darcyPass_outlet:
  "var_p_out_psig_iter (darcyPass GAS T up q L rough d a p)
     = up - var_deltaP_psi (darcyPass GAS T up q L rough d a p)"
  by (simp add: darcyPass_def Let_def)

lemma darcyPass_drop:
  "var_deltaP_psi (darcyPass GAS T up q L rough d a p)
     = swameeJainFrictionFactor rough d (var_re (darcyPass GAS T up q L rough d a p))
         * (L / d)
         * ((((up + P_ATM_PSIA + (p + P_ATM_PSIA)) / 2) * 144 / (gas_R GAS * toAbsRankine T))
              * var_v_fts (darcyPass GAS T up q L rough d a p)
              * var_v_fts (darcyPass GAS T up q L rough d a p))
         / (2 * G_C_LBM_FT_LBF_S2) / 144"
  by (simp only: darcyPass_def Let_def DarcyVars.select_convs)

text \<open>
  In the laminar regime the pressure drop of a pass does not depend on the pressure.
\<close>

lemma darcyPass_laminar:
  assumes re: "var_re (darcyPass GAS T up q L rough d a p) \<le> 2300"
    and nz: "(up + P_ATM_PSIA + (p + P_ATM_PSIA)) / 2 \<noteq> 0" "q \<noteq> 0" "a \<noteq> 0" "d \<noteq> 0"
      "gas_nu GAS \<noteq> 0" "gas_R GAS * toAbsRankine T \<noteq> 0"
  shows "var_deltaP_psi (darcyPass GAS T up q L rough d a p)
     = 64 * gas_nu GAS * L * P_ATM_PSIA * q
         / (gas_R GAS * toAbsRankine T * 60 * a * d * d * 2 * G_C_LBM_FT_LBF_S2)"
proof -
  define pavg where "pavg = (up + P_ATM_PSIA + (p + P_ATM_PSIA)) / 2"
  define v where "v = q * (P_ATM_PSIA / pavg) / 60 / a"
  define RT where "RT = gas_R GAS * toAbsRankine T"
  define nu where "nu = gas_nu GAS"
  have P: "P_ATM_PSIA \<noteq> 0" and G: "G_C_LBM_FT_LBF_S2 \<noteq> 0"
    by (simp_all add: P_ATM_PSIA_def G_C_LBM_FT_LBF_S2_def)
  have v: "var_v_fts (darcyPass GAS T up q L rough d a p) = v"
    by (simp only: darcyPass_velocity v_def pavg_def)
  have pnz: "pavg \<noteq> 0" using nz by (simp add: pavg_def)
  have vnz: "v \<noteq> 0" using nz P pnz by (simp add: v_def)
  have r: "var_re (darcyPass GAS T up q L rough d a p) = v * d / nu"
    by (simp only: darcyPass_reynolds v nu_def)
  have f: "swameeJainFrictionFactor rough d (v * d / nu) = 64 / (v * d / nu)"
    using re unfolding r by (simp add: swameeJainFrictionFactor_def)
  have "var_deltaP_psi (darcyPass GAS T up q L rough d a p)
      = 64 / (v * d / nu) * (L / d) * ((pavg * 144 / RT) * v * v) / (2 * G_C_LBM_FT_LBF_S2) / 144"
    unfolding darcyPass_drop r v f pavg_def RT_def ..
  also have "\<dots> = 64 * nu * L * (pavg * v) / (RT * d * d * 2 * G_C_LBM_FT_LBF_S2)"
    using vnz nz(4,5) G by (simp add: field_simps nu_def)
  also have "pavg * v = q * P_ATM_PSIA / (60 * a)"
    using nz(3) pnz by (simp add: v_def field_simps)
  finally show ?thesis
    using nz(3,4) by (simp add: nu_def RT_def field_simps)
qed

text \<open>
  With the area of a circular bore, velocity and Reynolds number of a pass are fixed
  multiples of the reciprocal of the mean absolute pressure.
\<close>

lemma darcyPass_velocity_circular:
  assumes "a = (pi * d * d) / 4" "d \<noteq> 0" "(up + P_ATM_PSIA + (p + P_ATM_PSIA)) / 2 \<noteq> 0"
  shows "var_v_fts (darcyPass GAS T up q L rough d a p)
           * (pi * ((up + P_ATM_PSIA + (p + P_ATM_PSIA)) / 2))
         = q * P_ATM_PSIA * 4 / (60 * d * d)"
proof -
  define pavg where "pavg = (up + P_ATM_PSIA + (p + P_ATM_PSIA)) / 2"
  have nz: "pavg \<noteq> 0" using assms(3) by (simp add: pavg_def)
  have "var_v_fts (darcyPass GAS T up q L rough d a p) = q * (P_ATM_PSIA / pavg) / 60 / a"
    unfolding pavg_def by (rule darcyPass_velocity)
  then show ?thesis
    unfolding pavg_def [symmetric] using nz assms(2) by (simp add: assms(1) field_simps)
qed

lemma darcyPass_reynolds_circular:
  assumes a: "a = (pi * d * d) / 4" and d: "0 < d"
    and nz: "(up + P_ATM_PSIA + (p + P_ATM_PSIA)) / 2 \<noteq> 0"
  shows "var_re (darcyPass (GAS_PROPERTIES air) T up q L rough d a p)
           * (pi * ((up + P_ATM_PSIA + (p + P_ATM_PSIA)) / 2))
         = q * P_ATM_PSIA * 4 / (60 * d * (1.6 / 10 ^ 4))"
proof -
  let ?w = "darcyPass (GAS_PROPERTIES air) T up q L rough d a p"
  let ?X = "pi * ((up + P_ATM_PSIA + (p + P_ATM_PSIA)) / 2)"
  have dnz: "d \<noteq> 0" using d by simp
  have "var_re ?w * ?X = (var_v_fts ?w * ?X) * d / (1.6 / 10 ^ 4)"
    by (simp only: darcyPass_reynolds air_props) simp
  also have "\<dots> = (q * P_ATM_PSIA * 4 / (60 * d * d)) * d / (1.6 / 10 ^ 4)"
    by (simp only: darcyPass_velocity_circular [OF a dnz nz])
  also have "\<dots> = q * P_ATM_PSIA * 4 / (60 * d * (1.6 / 10 ^ 4))"
    using dnz by simp
  finally show ?thesis .
qed

lemma laminar_drop_circular:
  fixes p d a q L up :: real
  assumes a: "a = (pi * d * d) / 4" and d: "0 < d" and q: "q \<noteq> 0"
    and nz: "(up + P_ATM_PSIA + (p + P_ATM_PSIA)) / 2 \<noteq> 0"
    and re: "var_re (darcyPass (GAS_PROPERTIES air) 70 up q L rough d a p) \<le> 2300"
  shows "var_deltaP_psi (darcyPass (GAS_PROPERTIES air) 70 up q L rough d a p) * pi
     = 64 * (1.6 / 10 ^ 4) * L * P_ATM_PSIA * q * 4
         / (53.35 * toAbsRankine 70 * 60 * d * d * d * d * 2 * G_C_LBM_FT_LBF_S2)"
proof -
  have apos: "a \<noteq> 0" using d by (simp add: a)
  have "var_deltaP_psi (darcyPass (GAS_PROPERTIES air) 70 up q L rough d a p)
     = 64 * gas_nu (GAS_PROPERTIES air) * L * P_ATM_PSIA * q
         / (gas_R (GAS_PROPERTIES air) * toAbsRankine 70 * 60 * a * d * d * 2 * G_C_LBM_FT_LBF_S2)"
    using re nz q apos d by (intro darcyPass_laminar) (auto simp: toAbsRankine_def)
  then show ?thesis
    unfolding air_props using d by (simp add: a field_simps)
qed

text \<open>
  A property of the outlet pressure that every pass preserves holds before the last pass.
\<close>

lemma darcyBranch_invariant:
  assumes first: "I (var_p_out_psig_iter (darcyPass GAS T up q L rough d a seed))"
    and step: "\<And>p. I p \<Longrightarrow> I (var_p_out_psig_iter (darcyPass GAS T up q L rough d a p))"
  shows "\<exists>p. I p \<and> darcyBranch GAS T up q L rough d a seed = darcyPass GAS T up q L rough d a p"
proof -
  let ?b = "darcyPass GAS T up q L rough d a"
  let ?o = "\<lambda>p. var_p_out_psig_iter (?b p)"
  have "I (?o (?o (?o (?o seed))))"
    by (intro step first)
  moreover have "darcyBranch GAS T up q L rough d a seed = ?b (?o (?o (?o (?o seed))))"
    by (simp add: darcyBranch_def darcyLoop_unroll)
  ultimately show ?thesis by blast
qed

lemma sizePipeRow_air:
  "SizingResultRow.deltaP (sizePipeRow q L up req mv T rough air pipe)
     = var_deltaP_psi (darcyBranch (GAS_PROPERTIES air) T up q L rough (PipeSize.id_in pipe / 12)
         ((pi * (PipeSize.id_in pipe / 12) * (PipeSize.id_in pipe / 12)) / 4) req)"
  "SizingResultRow.velocity (sizePipeRow q L up req mv T rough air pipe)
     = var_v_fts (darcyBranch (GAS_PROPERTIES air) T up q L rough (PipeSize.id_in pipe / 12)
         ((pi * (PipeSize.id_in pipe / 12) * (PipeSize.id_in pipe / 12)) / 4) req)"
  by (simp_all add: sizePipeRow_def Let_def)

lemma headerRow_air:
  assumes "gasType sys = air"
  shows "SizingResultRow.deltaP (headerRow q sys geo pipe)
     = var_deltaP_psi (darcyBranch (GAS_PROPERTIES air) (airTemperature geo) (inletPressure sys) q
         (headerLength geo) (pipeRoughness geo) (PipeSize.id_in pipe / 12)
         ((pi * (PipeSize.id_in pipe / 12) * (PipeSize.id_in pipe / 12)) / 4) (inletPressure sys))"
  "SizingResultRow.velocity (headerRow q sys geo pipe)
     = var_v_fts (darcyBranch (GAS_PROPERTIES air) (airTemperature geo) (inletPressure sys) q
         (headerLength geo) (pipeRoughness geo) (PipeSize.id_in pipe / 12)
         ((pi * (PipeSize.id_in pipe / 12) * (PipeSize.id_in pipe / 12)) / 4) (inletPressure sys))"
  using assms by (simp_all add: headerRow_def Let_def)

lemma rows_agree_at_inlet_seed:
  assumes "gasType sys = air"
  shows "SizingResultRow.nominal (headerRow q sys geo pipe) =
           SizingResultRow.nominal (sizePipeRow q (headerLength geo) (inletPressure sys)
             (inletPressure sys) (maxLineVelocity geo) (airTemperature geo) (pipeRoughness geo) air pipe)"
    and "SizingResultRow.velocity (headerRow q sys geo pipe) =
           SizingResultRow.velocity (sizePipeRow q (headerLength geo) (inletPressure sys)
             (inletPressure sys) (maxLineVelocity geo) (airTemperature geo) (pipeRoughness geo) air pipe)"
    and "SizingResultRow.deltaP (headerRow q sys geo pipe) =
           SizingResultRow.deltaP (sizePipeRow q (headerLength geo) (inletPressure sys)
             (inletPressure sys) (maxLineVelocity geo) (airTemperature geo) (pipeRoughness geo) air pipe)"
  using assms by (simp_all add: headerRow_def sizePipeRow_def Let_def)

subsection \<open>The friction factor of the quarter inch candidate\<close>

lemma tenth_root_bounds:
  fixes r :: real
  assumes "2300 \<le> r" "r \<le> 2700"
  shows "2.16 \<le> r powr 0.1" "r powr 0.1 \<le> 2.21"
proof -
  have "(2.16::real) = (2.16 ^ 10) powr 0.1"
    by (simp add: powr_powr flip: powr_numeral)
  also have "\<dots> \<le> r powr 0.1"
  proof (intro powr_mono2)
    have "(2.16 ^ 10 :: real) \<le> 2300" by (simp add: power_divide)
    then show "(2.16 ^ 10 :: real) \<le> r" using assms by simp
  qed auto
  finally show "2.16 \<le> r powr 0.1" .
  have "r powr 0.1 \<le> (2.21 ^ 10) powr 0.1"
  proof (intro powr_mono2)
    have "(2700 :: real) \<le> 2.21 ^ 10" by (simp add: power_divide)
    then show "r \<le> 2.21 ^ 10" using assms by simp
  qed (use assms in auto)
  also have "\<dots> = (2.21::real)"
    by (simp add: powr_powr flip: powr_numeral)
  finally show "r powr 0.1 \<le> 2.21" .
qed

lemma powr_09_bounds:
  fixes r :: real
  assumes "2300 \<le> r" "r \<le> 2700"
  shows "r / 2.21 \<le> r powr 0.9" "r powr 0.9 \<le> r / 2.16"
proof -
  have pos: "0 < r" using assms by simp
  have "r powr 0.9 = r powr (1 - 0.1)" by simp
  also have "\<dots> = r powr 1 / r powr 0.1" by (rule powr_diff)
  finally have e: "r powr 0.9 = r / r powr 0.1" using pos by simp
  note b = tenth_root_bounds [OF assms]
  show "r / 2.21 \<le> r powr 0.9"
    unfolding e using b pos by (intro divide_left_mono) auto
  show "r powr 0.9 \<le> r / 2.16"
    unfolding e using b pos by (intro divide_left_mono) auto
qed

lemma log10_bounds:
  fixes x :: real
  assumes "0.0059 \<le> x" "x \<le> 0.0069"
  shows "- 2.25 \<le> log 10 x" "log 10 x \<le> - 2.125"
proof -
  have pos: "0 < x" using assms by simp
  have "(1 / 10 ^ 9 :: real) \<le> 0.0059 ^ 4" by (simp add: power_divide)
  also have "\<dots> \<le> x ^ 4" using assms by (intro power_mono) auto
  finally have "log 10 (1 / 10 ^ 9) \<le> log 10 (x ^ 4)"
    using pos by (subst log_le_cancel_iff) auto
  moreover have "log 10 (1 / 10 ^ 9 :: real) = - 9"
  proof -
    have e: "(10::real) powr (- 9) = 1 / 10 ^ 9"
      by (simp add: powr_minus_divide)
    have "log 10 (10 powr (- 9)) = (- 9 :: real)"
      by (rule log_powr_cancel) simp_all
    then show ?thesis unfolding e .
  qed
  moreover have "log 10 (x ^ 4) = 4 * log 10 x"
    using pos by (simp add: log_nat_power)
  ultimately show "- 2.25 \<le> log 10 x" by simp
  have "x ^ 8 \<le> 0.0069 ^ 8" using assms by (intro power_mono) auto
  also have "\<dots> \<le> (1 / 10 ^ 17 :: real)" by (simp add: power_divide)
  finally have "log 10 (x ^ 8) \<le> log 10 (1 / 10 ^ 17)"
    using pos by (subst log_le_cancel_iff) auto
  moreover have "log 10 (1 / 10 ^ 17 :: real) = - 17"
  proof -
    have e: "(10::real) powr (- 17) = 1 / 10 ^ 17"
      by (simp add: powr_minus_divide)
    have "log 10 (10 powr (- 17)) = (- 17 :: real)"
      by (rule log_powr_cancel) simp_all
    then show ?thesis unfolding e .
  qed
  moreover have "log 10 (x ^ 8) = 8 * log 10 x"
    using pos by (simp add: log_nat_power)
  ultimately show "log 10 x \<le> - 2.125" by simp
qed

text \<open>
  Just above the laminar limit.
\<close>

lemma friction_window:
  fixes r :: real
  assumes "2300 < r" "r \<le> 2700"
  shows "0.0493 \<le> swameeJainFrictionFactor 0.00015 (0.364 / 12) r"
    and "swameeJainFrictionFactor 0.00015 (0.364 / 12) r \<le> 0.0554"
proof -
  define x where "x = 0.00015 / (3.7 * (0.364 / 12)) + 5.74 / (r powr 0.9)"
  have r: "2300 \<le> r" using assms by simp
  note b = powr_09_bounds [OF r assms(2)]
  have ppos: "0 < r powr 0.9" using assms by simp
  have "5.74 / (r / 2.16) \<le> 5.74 / (r powr 0.9)"
    using b ppos by (intro divide_left_mono) auto
  moreover have "5.74 / 2700 * 2.16 \<le> 5.74 / (r / 2.16)"
    using assms by (simp add: field_simps)
  ultimately have lo: "0.0059 \<le> x" by (simp add: x_def)
  have "5.74 / (r powr 0.9) \<le> 5.74 / (r / 2.21)"
    using b assms by (intro divide_left_mono) auto
  moreover have "5.74 / (r / 2.21) \<le> 5.74 / 2300 * 2.21"
    using assms by (simp add: field_simps)
  ultimately have hi: "x \<le> 0.0069" by (simp add: x_def)
  note l = log10_bounds [OF lo hi]
  have sq_lo: "2.125 * 2.125 \<le> log 10 x * log 10 x"
    using l mult_mono [of "2.125" "- log 10 x" "2.125" "- log 10 x"] by simp
  have sq_hi: "log 10 x * log 10 x \<le> 2.25 * 2.25"
    using l mult_mono [of "- log 10 x" "2.25" "- log 10 x" "2.25"] by simp
  have f: "swameeJainFrictionFactor 0.00015 (0.364 / 12) r = 0.25 / (log 10 x * log 10 x)"
    using assms by (simp add: swameeJainFrictionFactor_def Let_def x_def)
  have sqpos: "0 < log 10 x * log 10 x" using sq_lo by simp
  show "0.0493 \<le> swameeJainFrictionFactor 0.00015 (0.364 / 12) r"
    unfolding f using sq_hi sqpos by (simp add: field_simps)
  show "swameeJainFrictionFactor 0.00015 (0.364 / 12) r \<le> 0.0554"
    unfolding f using sq_lo sqpos by (simp add: field_simps)
qed

text \<open>
  Anywhere above the laminar limit.
\<close>

lemma friction_lower:
  fixes r :: real
  assumes "2300 < r"
  shows "1 / 36 \<le> swameeJainFrictionFactor 0.00015 (0.364 / 12) r"
proof -
  define t2 where "t2 = 5.74 / (r powr 0.9)"
  define x where "x = 0.00015 / (3.7 * (0.364 / 12)) + t2"
  have "sqrt 100 \<le> sqrt r" using assms by (intro real_sqrt_le_mono) simp
  then have "10 \<le> r powr (1 / 2)" using assms by (simp add: powr_half_sqrt)
  also have "r powr (1 / 2) \<le> r powr 0.9" using assms by (intro powr_mono) auto
  finally have p: "10 \<le> r powr 0.9" .
  have "t2 \<le> 5.74 / 10"
    unfolding t2_def using p by (intro divide_left_mono) auto
  then have hi: "x < 1" by (simp add: x_def)
  have "0 < r powr 0.9" using p by linarith
  then have "0 < t2" unfolding t2_def by (intro divide_pos_pos) auto
  then have lo: "1 / 10 ^ 3 \<le> x" by (simp add: x_def)
  have xpos: "0 < x" using lo by simp
  have e: "(10::real) powr (- 3) = 1 / 10 ^ 3"
    by (simp add: powr_minus_divide)
  have "log 10 (10 powr (- 3)) = (- 3 :: real)"
    by (rule log_powr_cancel) simp_all
  then have "log 10 (1 / 10 ^ 3) = (- 3 :: real)" unfolding e .
  moreover have "log 10 (1 / 10 ^ 3) \<le> log 10 x"
    using lo xpos by (subst log_le_cancel_iff) auto
  ultimately have l1: "- 3 \<le> log 10 x" by simp
  have l2: "log 10 x < 0" using hi xpos by simp
  have sq_hi: "log 10 x * log 10 x \<le> 3 * 3"
    using l1 l2 mult_mono [of "- log 10 x" 3 "- log 10 x" 3] by simp
  have sq_pos: "0 < log 10 x * log 10 x" using l2 by (simp add: zero_less_mult_iff)
  have f: "swameeJainFrictionFactor 0.00015 (0.364 / 12) r = 0.25 / (log 10 x * log 10 x)"
    using assms by (simp add: swameeJainFrictionFactor_def Let_def x_def t2_def)
  show ?thesis
    unfolding f using sq_hi sq_pos by (simp add: field_simps)
qed

subsection \<open>Concrete passes\<close>

text \<open>
  The quarter inch candidate on 3000 ft at 4.6 SCFM, inlet 130 psig: a pass that starts
  from an outlet pressure between 62 and 90 psig is turbulent, and its pressure drop is at
  least 50 psi.
\<close>

lemma turbulent_pass:
  fixes p d a :: real
  assumes d: "d = 0.364 / 12" and a: "a = (pi * d * d) / 4"
    and p: "62 \<le> p" "p \<le> 90"
  defines "w \<equiv> darcyPass (GAS_PROPERTIES air) 70 130 4.6 3000 0.00015 d a p"
  shows "50 \<le> var_deltaP_psi w \<and> 62 \<le> var_p_out_psig_iter w \<and> var_p_out_psig_iter w \<le> 90"
proof -
  define pavg where "pavg = (130 + P_ATM_PSIA + (p + P_ATM_PSIA)) / 2"
  have pavg: "110.7 \<le> pavg" "pavg \<le> 124.7"
    using p by (simp_all add: pavg_def P_ATM_PSIA_def)
  have pi: "3.141 < pi" "pi < 3.142" by (rule pi_gt_3141, rule pi_lt_3142)
  have dpos: "0 < d" by (simp add: d)
  define v where "v = var_v_fts w"
  define r where "r = var_re w"
  define ff where "ff = swameeJainFrictionFactor 0.00015 d r"
  define X where "X = pi * pavg"
  have X: "347.7 < X" "X < 391.9"
  proof -
    have "3.141 * 110.7 < pi * pavg"
      using pi pavg by (intro mult_less_le_imp_less) auto
    then show "347.7 < X" by (simp add: X_def)
    have "pi * pavg < 3.142 * 124.7"
      using pi pavg by (intro mult_less_le_imp_less) auto
    then show "X < 391.9" by (simp add: X_def)
  qed
  have vX: "v * X = 4.6 * P_ATM_PSIA * 4 / (60 * d * d)"
    unfolding v_def w_def X_def pavg_def
    using dpos pavg by (intro darcyPass_velocity_circular a) (auto simp: pavg_def)
  have r: "r = v * d / (1.6 / 10 ^ 4)"
    unfolding r_def v_def w_def by (simp only: darcyPass_reynolds air_props)
  have rX: "r * X = 12075000 / 13"
  proof -
    have "r * X = (v * X) * d / (1.6 / 10 ^ 4)" by (simp add: r)
    also have "\<dots> = 12075000 / 13" unfolding vX by (simp add: d P_ATM_PSIA_def)
    finally show ?thesis .
  qed
  have r_eq: "r = (12075000 / 13) / X"
    unfolding rX [symmetric] using X by simp
  have r_lo: "2300 < r" unfolding r_eq using X by (simp add: field_simps)
  have r_hi: "r \<le> 2700" unfolding r_eq using X by (simp add: field_simps)
  have ff: "0.0493 \<le> ff" "ff \<le> 0.0554"
    unfolding ff_def d using friction_window [OF r_lo r_hi] by simp_all
  have dp: "var_deltaP_psi w =
      ff * (3000 / d) * ((pavg * 144 / (53.35 * toAbsRankine 70)) * v * v)
        / (2 * G_C_LBM_FT_LBF_S2) / 144"
    unfolding ff_def r_def v_def w_def pavg_def by (simp only: darcyPass_drop air_props)
  define c where "c = 4.6 * P_ATM_PSIA * 4 / (60 * d * d)"
  have Xnz: "X \<noteq> 0" using X by simp
  have v_eq: "v = c / X"
    unfolding c_def vX [symmetric] using Xnz by simp
  define kappa where "kappa = 3000 / d * (144 / (53.35 * toAbsRankine 70)) * c * c
                                / (2 * G_C_LBM_FT_LBF_S2) / 144"
  have kappa: "1305610 \<le> kappa" "kappa \<le> 1305611"
    by (simp_all add: kappa_def c_def d toAbsRankine_def G_C_LBM_FT_LBF_S2_def P_ATM_PSIA_def)
  have dp_eq: "var_deltaP_psi w = ff * kappa / (pi * X)"
    unfolding dp v_eq kappa_def using X pavg by (simp add: X_def field_simps)
  have piX: "1092 < pi * X" "pi * X < 1232"
  proof -
    have "3.141 * 347.7 < pi * X" using pi X by (intro mult_strict_mono') auto
    then show "1092 < pi * X" by simp
    have "pi * X < 3.142 * 391.9" using pi X by (intro mult_strict_mono') auto
    then show "pi * X < 1232" by simp
  qed
  have num: "64366 \<le> ff * kappa" "ff * kappa \<le> 72331"
  proof -
    have "0.0493 * 1305610 \<le> ff * kappa" using ff kappa by (intro mult_mono) auto
    then show "64366 \<le> ff * kappa" by simp
    have "ff * kappa \<le> 0.0554 * 1305611" using ff kappa by (intro mult_mono) auto
    then show "ff * kappa \<le> 72331" by simp
  qed
  have lo: "50 \<le> var_deltaP_psi w"
    unfolding dp_eq using piX num by (simp add: field_simps)
  have hi: "var_deltaP_psi w \<le> 68"
    unfolding dp_eq using piX num by (simp add: field_simps)
  have out: "var_p_out_psig_iter w = 130 - var_deltaP_psi w"
    unfolding w_def by (rule darcyPass_outlet)
  show ?thesis using lo hi out by simp
qed

text \<open>
  A pass that starts between 100 and 130 psig is laminar, and its pressure drop is at most 29 psi.
\<close>

lemma laminar_pass:
  fixes p d a :: real
  assumes d: "d = 0.364 / 12" and a: "a = (pi * d * d) / 4"
    and p: "100 \<le> p" "p \<le> 130"
  defines "w \<equiv> darcyPass (GAS_PROPERTIES air) 70 130 4.6 3000 0.00015 d a p"
  shows "var_deltaP_psi w \<le> 29 \<and> 100 \<le> var_p_out_psig_iter w \<and> var_p_out_psig_iter w \<le> 130"
proof -
  define pavg where "pavg = (130 + P_ATM_PSIA + (p + P_ATM_PSIA)) / 2"
  have pavg: "129.7 \<le> pavg" "pavg \<le> 144.7"
    using p by (simp_all add: pavg_def P_ATM_PSIA_def)
  have pi: "3.141 < pi" "pi < 3.142" by (rule pi_gt_3141, rule pi_lt_3142)
  have dpos: "0 < d" by (simp add: d)
  define X where "X = pi * pavg"
  have X: "407.3 < X"
  proof -
    have "3.141 * 129.7 < pi * pavg"
      using pi pavg by (intro mult_less_le_imp_less) auto
    then show ?thesis by (simp add: X_def)
  qed
  have nz: "(130 + P_ATM_PSIA + (p + P_ATM_PSIA)) / 2 \<noteq> 0"
    using pavg by (simp add: pavg_def)
  have "var_re w * X = 4.6 * P_ATM_PSIA * 4 / (60 * d * (1.6 / 10 ^ 4))"
    unfolding w_def X_def pavg_def by (rule darcyPass_reynolds_circular [OF a dpos nz])
  also have "\<dots> = 12075000 / 13" by (simp add: d P_ATM_PSIA_def)
  finally have rX: "var_re w * X = 12075000 / 13" .
  have r_eq: "var_re w = (12075000 / 13) / X"
    unfolding rX [symmetric] using X by simp
  have re: "var_re w \<le> 2300" unfolding r_eq using X by (simp add: field_simps)
  have "var_deltaP_psi w * pi
     = 64 * (1.6 / 10 ^ 4) * 3000 * P_ATM_PSIA * 4.6 * 4
         / (53.35 * toAbsRankine 70 * 60 * d * d * d * d * 2 * G_C_LBM_FT_LBF_S2)"
    unfolding w_def using re [unfolded w_def] by (intro laminar_drop_circular a dpos nz) auto
  also have "\<dots> \<le> 90"
    by (simp add: d toAbsRankine_def G_C_LBM_FT_LBF_S2_def P_ATM_PSIA_def)
  finally have hi: "var_deltaP_psi w * pi \<le> 90" .
  have "0 \<le> 64 * (1.6 / 10 ^ 4) * 3000 * P_ATM_PSIA * 4.6 * 4
         / (53.35 * toAbsRankine 70 * 60 * d * d * d * d * 2 * G_C_LBM_FT_LBF_S2)"
    by (simp add: d toAbsRankine_def G_C_LBM_FT_LBF_S2_def P_ATM_PSIA_def)
  also have "\<dots> = var_deltaP_psi w * pi"
    unfolding w_def using re [unfolded w_def]
    by (intro laminar_drop_circular [symmetric] a dpos nz) auto
  finally have lo: "0 \<le> var_deltaP_psi w * pi" .
  have dp_lo: "0 \<le> var_deltaP_psi w"
    using lo pi by (auto simp: zero_le_mult_iff)
  have dp_hi: "var_deltaP_psi w \<le> 29"
  proof -
    have "var_deltaP_psi w * 3.141 \<le> var_deltaP_psi w * pi"
      using dp_lo pi by (intro mult_left_mono) auto
    then show ?thesis using hi by simp
  qed
  have out: "var_p_out_psig_iter w = 130 - var_deltaP_psi w"
    unfolding w_def by (rule darcyPass_outlet)
  show ?thesis using dp_lo dp_hi out by simp
qed

text \<open>
  The same candidate on 1000 ft. At 1 SCFM a pass that starts between 95 and 130 psig is
  laminar, with a positive velocity.
\<close>

lemma small_flow_pass:
  fixes p d a :: real
  assumes d: "d = 0.364 / 12" and a: "a = (pi * d * d) / 4"
    and p: "95 \<le> p" "p \<le> 130"
  defines "w \<equiv> darcyPass (GAS_PROPERTIES air) 70 130 1 1000 0.00015 d a p"
  shows "0 < var_v_fts w \<and> 95 \<le> var_p_out_psig_iter w \<and> var_p_out_psig_iter w \<le> 130"
proof -
  define pavg where "pavg = (130 + P_ATM_PSIA + (p + P_ATM_PSIA)) / 2"
  have pavg: "127.2 \<le> pavg" "pavg \<le> 144.7"
    using p by (simp_all add: pavg_def P_ATM_PSIA_def)
  have pi: "3.141 < pi" "pi < 3.142" by (rule pi_gt_3141, rule pi_lt_3142)
  have dpos: "0 < d" by (simp add: d)
  define X where "X = pi * pavg"
  have X: "399.5 < X"
  proof -
    have "3.141 * 127.2 < pi * pavg"
      using pi pavg by (intro mult_less_le_imp_less) auto
    then show ?thesis by (simp add: X_def)
  qed
  have nz: "(130 + P_ATM_PSIA + (p + P_ATM_PSIA)) / 2 \<noteq> 0"
    using pavg by (simp add: pavg_def)
  have "var_v_fts w * X = 1 * P_ATM_PSIA * 4 / (60 * d * d)"
    unfolding w_def X_def pavg_def using dpos by (intro darcyPass_velocity_circular a nz) auto
  then have vX: "0 < var_v_fts w * X" by (simp add: d P_ATM_PSIA_def)
  have v: "0 < var_v_fts w" using vX X by (simp add: zero_less_mult_iff)
  have "var_re w * X = 1 * P_ATM_PSIA * 4 / (60 * d * (1.6 / 10 ^ 4))"
    unfolding w_def X_def pavg_def by (rule darcyPass_reynolds_circular [OF a dpos nz])
  also have "\<dots> = 2625000 / 13" by (simp add: d P_ATM_PSIA_def)
  finally have rX: "var_re w * X = 2625000 / 13" .
  have r_eq: "var_re w = (2625000 / 13) / X"
    unfolding rX [symmetric] using X by simp
  have re: "var_re w \<le> 2300" unfolding r_eq using X by (simp add: field_simps)
  have eq: "var_deltaP_psi w * pi
     = 64 * (1.6 / 10 ^ 4) * 1000 * P_ATM_PSIA * 1 * 4
         / (53.35 * toAbsRankine 70 * 60 * d * d * d * d * 2 * G_C_LBM_FT_LBF_S2)"
    unfolding w_def using re [unfolded w_def] by (intro laminar_drop_circular a dpos nz) auto
  have hi: "var_deltaP_psi w * pi \<le> 7"
    unfolding eq by (simp add: d toAbsRankine_def G_C_LBM_FT_LBF_S2_def P_ATM_PSIA_def)
  have lo: "0 \<le> var_deltaP_psi w * pi"
    unfolding eq by (simp add: d toAbsRankine_def G_C_LBM_FT_LBF_S2_def P_ATM_PSIA_def)
  have dp_lo: "0 \<le> var_deltaP_psi w"
    using lo pi by (auto simp: zero_le_mult_iff)
  have dp_hi: "var_deltaP_psi w \<le> 3"
  proof -
    have "var_deltaP_psi w * 3.141 \<le> var_deltaP_psi w * pi"
      using dp_lo pi by (intro mult_left_mono) auto
    then show ?thesis using hi by simp
  qed
  have out: "var_p_out_psig_iter w = 130 - var_deltaP_psi w"
    unfolding w_def by (rule darcyPass_outlet)
  show ?thesis using v dp_lo dp_hi out by simp
qed

text \<open>
  At 200 SCFM a pass that starts below -160 psig (a negative mean absolute pressure) is
  laminar, has a negative velocity and ends below -160 psig again.
\<close>

lemma large_flow_pass:
  fixes p d a :: real
  assumes d: "d = 0.364 / 12" and a: "a = (pi * d * d) / 4"
    and p: "p < - 160"
  defines "w \<equiv> darcyPass (GAS_PROPERTIES air) 70 130 200 1000 0.00015 d a p"
  shows "var_v_fts w < 0 \<and> var_p_out_psig_iter w < - 160"
proof -
  define pavg where "pavg = (130 + P_ATM_PSIA + (p + P_ATM_PSIA)) / 2"
  have pavg: "pavg < 0"
    using p by (simp add: pavg_def P_ATM_PSIA_def)
  have pi: "3.141 < pi" "pi < 3.142" by (rule pi_gt_3141, rule pi_lt_3142)
  have dpos: "0 < d" by (simp add: d)
  define X where "X = pi * pavg"
  have X: "X < 0" using pavg pi by (simp add: X_def mult_less_0_iff)
  have nz: "(130 + P_ATM_PSIA + (p + P_ATM_PSIA)) / 2 \<noteq> 0"
    using pavg by (simp add: pavg_def)
  have "var_v_fts w * X = 200 * P_ATM_PSIA * 4 / (60 * d * d)"
    unfolding w_def X_def pavg_def using dpos by (intro darcyPass_velocity_circular a nz) auto
  then have vX: "0 < var_v_fts w * X" by (simp add: d P_ATM_PSIA_def)
  have v: "var_v_fts w < 0" using vX X by (simp add: zero_less_mult_iff)
  have "var_re w = var_v_fts w * d / (1.6 / 10 ^ 4)"
    unfolding w_def by (simp only: darcyPass_reynolds air_props)
  also have "\<dots> \<le> 0" using v dpos by (simp add: mult_le_0_iff divide_le_0_iff)
  finally have re: "var_re w \<le> 2300" by simp
  have eq: "var_deltaP_psi w * pi
     = 64 * (1.6 / 10 ^ 4) * 1000 * P_ATM_PSIA * 200 * 4
         / (53.35 * toAbsRankine 70 * 60 * d * d * d * d * 2 * G_C_LBM_FT_LBF_S2)"
    unfolding w_def using re [unfolded w_def] by (intro laminar_drop_circular a dpos nz) auto
  have lo: "1303 \<le> var_deltaP_psi w * pi"
    unfolding eq by (simp add: d toAbsRankine_def G_C_LBM_FT_LBF_S2_def P_ATM_PSIA_def)
  have "0 < var_deltaP_psi w * pi" using lo by simp
  then have dp_pos: "0 \<le> var_deltaP_psi w"
    using pi by (auto simp: zero_less_mult_iff)
  have dp_lo: "400 \<le> var_deltaP_psi w"
  proof -
    have "var_deltaP_psi w * pi \<le> var_deltaP_psi w * 3.142"
      using dp_pos pi by (intro mult_left_mono) auto
    then show ?thesis using lo by simp
  qed
  have out: "var_p_out_psig_iter w = 130 - var_deltaP_psi w"
    unfolding w_def by (rule darcyPass_outlet)
  show ?thesis using v dp_lo out by simp
qed

text \<open>
  The first pass at 200 SCFM, from the required 95 psig, is turbulent and ends below -160 psig.
\<close>

lemma large_flow_first_pass:
  fixes d a :: real
  assumes d: "d = 0.364 / 12" and a: "a = (pi * d * d) / 4"
  defines "w \<equiv> darcyPass (GAS_PROPERTIES air) 70 130 200 1000 0.00015 d a 95"
  shows "var_p_out_psig_iter w < - 160"
proof -
  define pavg where "pavg = (130 + P_ATM_PSIA + (95 + P_ATM_PSIA)) / 2"
  have pavg: "pavg = 127.2" by (simp add: pavg_def P_ATM_PSIA_def)
  have pi: "3.141 < pi" "pi < 3.142" by (rule pi_gt_3141, rule pi_lt_3142)
  have dpos: "0 < d" by (simp add: d)
  define v where "v = var_v_fts w"
  define r where "r = var_re w"
  define ff where "ff = swameeJainFrictionFactor 0.00015 d r"
  define X where "X = pi * pavg"
  have X: "399 < X" "X < 400"
    using pi by (simp_all add: X_def pavg)
  have Xnz: "X \<noteq> 0" using X by simp
  have nz: "(130 + P_ATM_PSIA + (95 + P_ATM_PSIA)) / 2 \<noteq> 0"
    using pavg by (simp add: pavg_def)
  have vX: "v * X = 200 * P_ATM_PSIA * 4 / (60 * d * d)"
    unfolding v_def w_def X_def pavg_def using dpos by (intro darcyPass_velocity_circular a nz) auto
  have "r * X = 200 * P_ATM_PSIA * 4 / (60 * d * (1.6 / 10 ^ 4))"
    unfolding r_def w_def X_def pavg_def by (rule darcyPass_reynolds_circular [OF a dpos nz])
  also have "\<dots> = 525000000 / 13" by (simp add: d P_ATM_PSIA_def)
  finally have rX: "r * X = 525000000 / 13" .
  have r_eq: "r = (525000000 / 13) / X"
    unfolding rX [symmetric] using X by simp
  have r_lo: "2300 < r" unfolding r_eq using X by (simp add: field_simps)
  have ff: "1 / 36 \<le> ff"
    unfolding ff_def d using friction_lower [OF r_lo] by simp
  have dp: "var_deltaP_psi w =
      ff * (1000 / d) * ((pavg * 144 / (53.35 * toAbsRankine 70)) * v * v)
        / (2 * G_C_LBM_FT_LBF_S2) / 144"
    unfolding ff_def r_def v_def w_def pavg_def by (simp only: darcyPass_drop air_props)
  define c where "c = 200 * P_ATM_PSIA * 4 / (60 * d * d)"
  have v_eq: "v = c / X"
    unfolding c_def vX [symmetric] using Xnz by simp
  define kappa where "kappa = 1000 / d * (144 / (53.35 * toAbsRankine 70)) * c * c
                                / (2 * G_C_LBM_FT_LBF_S2) / 144"
  have kappa: "822690000 \<le> kappa"
    by (simp add: kappa_def c_def d toAbsRankine_def G_C_LBM_FT_LBF_S2_def P_ATM_PSIA_def)
  have dp_eq: "var_deltaP_psi w = ff * kappa / (pi * X)"
    unfolding dp v_eq kappa_def using X by (simp add: X_def pavg field_simps)
  have piX: "0 < pi * X" "pi * X < 1260"
  proof -
    show "0 < pi * X" using pi X by simp
    have "pi * X < 3.142 * 400" using pi X by (intro mult_strict_mono') auto
    then show "pi * X < 1260" by simp
  qed
  have num: "22852500 \<le> ff * kappa"
  proof -
    have "1 / 36 * 822690000 \<le> ff * kappa" using ff kappa by (intro mult_mono) auto
    then show ?thesis by simp
  qed
  have lo: "18000 \<le> var_deltaP_psi w"
    unfolding dp_eq using piX num by (simp add: field_simps)
  have out: "var_p_out_psig_iter w = 130 - var_deltaP_psi w"
    unfolding w_def by (rule darcyPass_outlet)
  show ?thesis using lo out by simp
qed

lemma one_quarter_selected: "selected quarter_inch"
  by (simp add: quarter_inch_def)

lemma header_row_drop_small:
  "SizingResultRow.deltaP (headerRow 4.6 example_system long_header_geometry quarter_inch) \<le> 29"
proof -
  define d :: real where "d = 0.364 / 12"
  define a where "a = (pi * d * d) / 4"
  let ?I = "\<lambda>p::real. 100 \<le> p \<and> p \<le> 130"
  have step: "?I (var_p_out_psig_iter (darcyPass (GAS_PROPERTIES air) 70 130 4.6 3000 0.00015 d a p))"
    if "?I p" for p
    using laminar_pass [OF d_def a_def, of p] that by simp
  have "?I 130" by simp
  then have first: "?I (var_p_out_psig_iter (darcyPass (GAS_PROPERTIES air) 70 130 4.6 3000 0.00015 d a 130))"
    by (rule step)
  obtain p where p: "?I p"
    and e: "darcyBranch (GAS_PROPERTIES air) 70 130 4.6 3000 0.00015 d a 130
              = darcyPass (GAS_PROPERTIES air) 70 130 4.6 3000 0.00015 d a p"
    using darcyBranch_invariant [of ?I, OF first step] by blast
  have "var_deltaP_psi (darcyBranch (GAS_PROPERTIES air) 70 130 4.6 3000 0.00015 d a 130) \<le> 29"
    unfolding e using laminar_pass [OF d_def a_def, of p] p by simp
  moreover have "SizingResultRow.deltaP (headerRow 4.6 example_system long_header_geometry quarter_inch)
      = var_deltaP_psi (darcyBranch (GAS_PROPERTIES air) 70 130 4.6 3000 0.00015 d a 130)"
    unfolding d_def a_def
    by (subst headerRow_air)
       (simp_all add: example_system_def long_header_geometry_def example_geometry_def quarter_inch_def)
  ultimately show ?thesis by simp
qed

lemma generic_row_drop_large:
  "50 \<le> SizingResultRow.deltaP (sizePipeRow 4.6 3000 130 90 50 70 0.00015 air quarter_inch)"
proof -
  define d :: real where "d = 0.364 / 12"
  define a where "a = (pi * d * d) / 4"
  let ?I = "\<lambda>p::real. 62 \<le> p \<and> p \<le> 90"
  have step: "?I (var_p_out_psig_iter (darcyPass (GAS_PROPERTIES air) 70 130 4.6 3000 0.00015 d a p))"
    if "?I p" for p
    using turbulent_pass [OF d_def a_def, of p] that by simp
  have "?I 90" by simp
  then have first: "?I (var_p_out_psig_iter (darcyPass (GAS_PROPERTIES air) 70 130 4.6 3000 0.00015 d a 90))"
    by (rule step)
  obtain p where p: "?I p"
    and e: "darcyBranch (GAS_PROPERTIES air) 70 130 4.6 3000 0.00015 d a 90
              = darcyPass (GAS_PROPERTIES air) 70 130 4.6 3000 0.00015 d a p"
    using darcyBranch_invariant [of ?I, OF first step] by blast
  have "50 \<le> var_deltaP_psi (darcyBranch (GAS_PROPERTIES air) 70 130 4.6 3000 0.00015 d a 90)"
    unfolding e using turbulent_pass [OF d_def a_def, of p] p by simp
  moreover have "SizingResultRow.deltaP (sizePipeRow 4.6 3000 130 90 50 70 0.00015 air quarter_inch)
      = var_deltaP_psi (darcyBranch (GAS_PROPERTIES air) 70 130 4.6 3000 0.00015 d a 90)"
    unfolding d_def a_def
    by (subst sizePipeRow_air) (simp_all add: quarter_inch_def)
  ultimately show ?thesis by simp
qed

subsection \<open>The natural-gas branch is monotone in the flow\<close>

lemma ifgc_outlet:
  assumes "0 < q"
  shows "fst (snd (ifgcBranch q L up d a)) =
     (if (up + P_ATM_PSIA) * (up + P_ATM_PSIA)
           - L * (((q * 60) / (2207 * (d powr 2.582))) powr (1 / 0.522)) < 0
      then - P_ATM_PSIA
      else sqrt ((up + P_ATM_PSIA) * (up + P_ATM_PSIA)
                   - L * (((q * 60) / (2207 * (d powr 2.582))) powr (1 / 0.522))) - P_ATM_PSIA)"
  using assms by (simp add: ifgcBranch_def Let_def)

lemma ifgc_drop: "fst (ifgcBranch q L up d a) = up - fst (snd (ifgcBranch q L up d a))"
  by (simp add: ifgcBranch_def Let_def)

lemma ifgc_velocity:
  "snd (snd (ifgcBranch q L up d a)) =
     q * (P_ATM_PSIA / ((up + P_ATM_PSIA + (fst (snd (ifgcBranch q L up d a)) + P_ATM_PSIA)) / 2))
       / 60 / a"
  by (simp only: ifgcBranch_def Let_def fst_conv snd_conv)

lemma ifgc_outlet_ge: "0 < q \<Longrightarrow> - P_ATM_PSIA \<le> fst (snd (ifgcBranch q L up d a))"
  by (simp add: ifgc_outlet)

lemma ifgc_outlet_antimono:
  assumes "0 < q1" "q1 \<le> q2" "0 \<le> L" "0 < d"
  shows "fst (snd (ifgcBranch q2 L up d a)) \<le> fst (snd (ifgcBranch q1 L up d a))"
proof -
  define t where "t = (\<lambda>q::real. (q * 60) / (2207 * (d powr 2.582)))"
  define s where "s = (\<lambda>q. (up + P_ATM_PSIA) * (up + P_ATM_PSIA) - L * (t q powr (1 / 0.522)))"
  have q2: "0 < q2" using assms by simp
  have dp: "0 < d powr 2.582" using assms by simp
  have t0: "0 \<le> t q1" unfolding t_def using assms dp by (intro divide_nonneg_nonneg) auto
  have t12: "t q1 \<le> t q2"
    unfolding t_def using assms dp by (intro divide_right_mono) auto
  have "t q1 powr (1 / 0.522) \<le> t q2 powr (1 / 0.522)"
    using t0 t12 by (intro powr_mono2) auto
  then have "L * (t q1 powr (1 / 0.522)) \<le> L * (t q2 powr (1 / 0.522))"
    using assms by (intro mult_left_mono) auto
  then have s21: "s q2 \<le> s q1" by (simp add: s_def)
  have o1: "fst (snd (ifgcBranch q1 L up d a)) = (if s q1 < 0 then - P_ATM_PSIA else sqrt (s q1) - P_ATM_PSIA)"
    unfolding s_def t_def by (rule ifgc_outlet [OF assms(1)])
  have o2: "fst (snd (ifgcBranch q2 L up d a)) = (if s q2 < 0 then - P_ATM_PSIA else sqrt (s q2) - P_ATM_PSIA)"
    unfolding s_def t_def by (rule ifgc_outlet [OF q2])
  show ?thesis
  proof (cases "s q2 < 0")
    case True
    then show ?thesis using ifgc_outlet_ge [OF assms(1), of L up d a] by (simp add: o2)
  next
    case False
    then have "\<not> s q1 < 0" using s21 by simp
    moreover have "sqrt (s q2) \<le> sqrt (s q1)" using s21 by simp
    ultimately show ?thesis using False by (simp add: o1 o2)
  qed
qed

text \<open>
  For natural gas, a segment of non-negative length, a positive bore and a positive
  absolute upstream pressure, a larger flow never gives a smaller velocity or a smaller
  pressure drop: the clamp of lines 88 to 89 keeps the mean absolute pressure positive.
\<close>

lemma fuel_gas_flow_monotone:
  assumes "0 < q1" "q1 \<le> q2" "0 \<le> L" "0 < PipeSize.id_in pipe" "0 < up + P_ATM_PSIA"
  shows "SizingResultRow.velocity (sizePipeRow q1 L up req mv T rough naturalGas pipe)
           \<le> SizingResultRow.velocity (sizePipeRow q2 L up req mv T rough naturalGas pipe) \<and>
         SizingResultRow.deltaP (sizePipeRow q1 L up req mv T rough naturalGas pipe)
           \<le> SizingResultRow.deltaP (sizePipeRow q2 L up req mv T rough naturalGas pipe)"
proof -
  define d where "d = PipeSize.id_in pipe"
  define a where "a = (pi * (d / 12) * (d / 12)) / 4"
  define o1 where "o1 = fst (snd (ifgcBranch q1 L up d a))"
  define o2 where "o2 = fst (snd (ifgcBranch q2 L up d a))"
  have row: "SizingResultRow.velocity (sizePipeRow q L up req mv T rough naturalGas pipe)
               = snd (snd (ifgcBranch q L up d a))"
            "SizingResultRow.deltaP (sizePipeRow q L up req mv T rough naturalGas pipe)
               = fst (ifgcBranch q L up d a)" for q
    by (simp_all add: sizePipeRow_def Let_def d_def a_def split: prod.splits)
  have dpos: "0 < d" using assms by (simp add: d_def)
  have apos: "0 < a" using dpos by (simp add: a_def)
  have q2: "0 < q2" using assms by simp
  have o21: "o2 \<le> o1"
    unfolding o1_def o2_def by (rule ifgc_outlet_antimono [OF assms(1,2,3) dpos])
  have o2ge: "- P_ATM_PSIA \<le> o2" unfolding o2_def by (rule ifgc_outlet_ge [OF q2])
  define m1 where "m1 = (up + P_ATM_PSIA + (o1 + P_ATM_PSIA)) / 2"
  define m2 where "m2 = (up + P_ATM_PSIA + (o2 + P_ATM_PSIA)) / 2"
  have m: "0 < m2" "m2 \<le> m1"
    using o21 o2ge assms(5) by (simp_all add: m1_def m2_def)
  have P: "0 \<le> P_ATM_PSIA" by (simp add: P_ATM_PSIA_def)
  have "P_ATM_PSIA / m1 \<le> P_ATM_PSIA / m2"
    using m P by (intro divide_left_mono) auto
  moreover have "0 \<le> P_ATM_PSIA / m1" using m P by simp
  ultimately have "q1 * (P_ATM_PSIA / m1) \<le> q2 * (P_ATM_PSIA / m2)"
    using assms(1,2) by (intro mult_mono) auto
  then have "q1 * (P_ATM_PSIA / m1) / 60 / a \<le> q2 * (P_ATM_PSIA / m2) / 60 / a"
    using apos by (intro divide_right_mono) auto
  then have v: "snd (snd (ifgcBranch q1 L up d a)) \<le> snd (snd (ifgcBranch q2 L up d a))"
    unfolding m1_def m2_def o1_def o2_def by (simp only: ifgc_velocity [symmetric])
  have dp: "fst (ifgcBranch q1 L up d a) \<le> fst (ifgcBranch q2 L up d a)"
    using o21 unfolding o1_def o2_def by (simp add: ifgc_drop)
  show ?thesis using v dp by (simp add: row)
qed

subsection \<open>Concrete evaluations\<close>

text \<open>
  Ten SCFM of natural gas at 5 psig through 10000 ft of one inch bore: the squared outlet
  pressure is negative.
\<close>

lemma long_line_negative:
  "(5 + P_ATM_PSIA) * (5 + P_ATM_PSIA)
     - 10000 * (((10 * 60) / (2207 * ((1::real) powr 2.582))) powr (1 / 0.522)) < 0"
proof -
  have "((600::real) / 2207) ^ 2 \<le> (600 / 2207) powr (1 / 0.522)"
    by (rule powr_small_base) simp_all
  then have "(739::real) \<le> 10000 * ((600 / 2207) powr (1 / 0.522))"
    by (simp add: power2_eq_square)
  then show ?thesis by (simp add: P_ATM_PSIA_def)
qed

lemma long_header_row:
  "headerRow 10 fuel_system long_geometry one_inch =
     \<lparr> SizingResultRow.nominal = ''1 in'', SizingResultRow.id_in = 1,
       SizingResultRow.velocity = 10 * (P_ATM_PSIA / ((5 + P_ATM_PSIA) / 2)) / 60 / ((pi * (1 / 12) * (1 / 12)) / 4),
       SizingResultRow.deltaP = 5 + P_ATM_PSIA,
       SizingResultRow.outletPressure = Some (- P_ATM_PSIA),
       SizingResultRow.status = Insufficient_outlet_pressure,
       SizingResultRow.severity = Some Sev_bad \<rparr>"
proof -
  have v: "10 * (P_ATM_PSIA / ((5 + P_ATM_PSIA) / 2)) / 60 / ((pi * (1 / 12) * (1 / 12)) / 4) \<le> 50"
    using pi_ge_3 by (simp add: P_ATM_PSIA_def field_simps)
  show ?thesis
    using v ifgc_clamped [OF _ long_line_negative, of "(pi * (1 / 12) * (1 / 12)) / 4"]
    apply (simp add: headerRow_def Let_def fuel_system_def long_geometry_def one_inch_def calculateSeverity_def)
    apply (simp add: P_ATM_PSIA_def)
    done
qed

lemma long_header:
  "calculateHeaderSizing 10 fuel_system long_geometry [one_inch] =
     Some \<lparr> HeaderResults.recommendedSize = ''No feasible size'',
            HeaderResults.outletPressure = 0, designScfm = 10, HeaderResults.velocity = 0,
            HeaderResults.comparisonTable = [headerRow 10 fuel_system long_geometry one_inch] \<rparr>"
  by (simp add: calculateHeaderSizing_def Let_def long_header_row) (simp add: one_inch_def)

lemma long_drop_row:
  "sizePipeRow 10 10000 5 2 50 T rough naturalGas one_inch =
     \<lparr> SizingResultRow.nominal = ''1 in'', SizingResultRow.id_in = 1,
       SizingResultRow.velocity = 10 * (P_ATM_PSIA / ((5 + P_ATM_PSIA) / 2)) / 60 / ((pi * (1 / 12) * (1 / 12)) / 4),
       SizingResultRow.deltaP = 5 + P_ATM_PSIA,
       SizingResultRow.outletPressure = None,
       SizingResultRow.status = Excessive_dP,
       SizingResultRow.severity = Some Sev_bad \<rparr>"
proof -
  have v: "10 * (P_ATM_PSIA / ((5 + P_ATM_PSIA) / 2)) / 60 / ((pi * (1 / 12) * (1 / 12)) / 4) \<le> 50"
    using pi_ge_3 by (simp add: P_ATM_PSIA_def field_simps)
  show ?thesis
    using v ifgc_clamped [OF _ long_line_negative, of "(pi * (1 / 12) * (1 / 12)) / 4"]
    apply (simp add: sizePipeRow_def Let_def one_inch_def calculateSeverity_def)
    apply (simp add: P_ATM_PSIA_def)
    done
qed

lemma vacuum_reference_row:
  "SizingResultRow.status (sizePipeRow 10 10000 5 (- 14.7) 50 T rough naturalGas one_inch) = OK"
proof -
  have v: "10 * (P_ATM_PSIA / ((5 + P_ATM_PSIA) / 2)) / 60 / ((pi * (1 / 12) * (1 / 12)) / 4) \<le> 50"
    using pi_ge_3 by (simp add: P_ATM_PSIA_def field_simps)
  show ?thesis
    using v ifgc_clamped [OF _ long_line_negative, of "(pi * (1 / 12) * (1 / 12)) / 4"]
    apply (simp add: sizePipeRow_def Let_def one_inch_def calculateSeverity_def)
    apply (simp add: P_ATM_PSIA_def)
    done
qed

text \<open>
  The same flow through 10 ft.
\<close>

lemma short_drop_row_ok:
  "SizingResultRow.status (sizePipeRow 10 10 5 2 50 T rough naturalGas one_inch) = OK"
proof -
  define w where "w = 10 * ((((10::real) * 60) / (2207 * (1 powr 2.582))) powr (1 / 0.522))"
  define s where "s = sqrt ((5 + P_ATM_PSIA) * (5 + P_ATM_PSIA) - w)"
  have "((600::real) / 2207) powr (1 / 0.522) \<le> 600 / 2207"
    by (rule powr_small_base_upper) simp_all
  then have w3: "w \<le> 3" by (simp add: w_def)
  have w0: "0 \<le> w" by (simp add: w_def)
  have "sqrt (19 ^ 2) \<le> s"
    unfolding s_def using w3 by (intro real_sqrt_le_mono) (simp add: P_ATM_PSIA_def)
  then have s19: "19 \<le> s" by simp
  have nonneg: "\<not> (5 + P_ATM_PSIA) * (5 + P_ATM_PSIA) - w < 0"
    using w3 by (simp add: P_ATM_PSIA_def)
  have b: "ifgcBranch 10 10 5 1 a =
      (5 - (s - P_ATM_PSIA), s - P_ATM_PSIA,
       10 * (P_ATM_PSIA / ((5 + P_ATM_PSIA + (s - P_ATM_PSIA + P_ATM_PSIA)) / 2)) / 60 / a)" for a
    using nonneg unfolding ifgcBranch_def Let_def s_def w_def
    by (simp del: divide_divide_eq_left divide_divide_eq_right times_divide_eq_left times_divide_eq_right)
  have "2822.4 \<le> 50 * (38.7 * (3::real))" by simp
  also have "\<dots> \<le> 50 * ((19.7 + s) * pi)"
    using s19 pi_ge_3 by (intro mult_left_mono mult_mono) auto
  finally have v: "10 * (P_ATM_PSIA / ((5 + P_ATM_PSIA + (s - P_ATM_PSIA + P_ATM_PSIA)) / 2)) / 60
                     / ((pi * (1 / 12) * (1 / 12)) / 4) \<le> 50"
    using s19 by (simp add: P_ATM_PSIA_def field_simps)
  have p: "5 - (s - P_ATM_PSIA) \<le> max (1 / 10 ^ 6) (5 - 2)"
    using s19 by (simp add: P_ATM_PSIA_def)
  show ?thesis
    using v p
    by (simp add: sizePipeRow_def Let_def one_inch_def b del: divide_divide_eq_left divide_divide_eq_right times_divide_eq_left times_divide_eq_right)
qed

lemma one_inch_selected: "selected one_inch"
  by (simp add: one_inch_def)

lemma short_drop_table:
  "table (sizePipe 10 10 5 2 50 T rough [one_inch] naturalGas)
     = [sizePipeRow 10 10 5 2 50 T rough naturalGas one_inch]"
  by (simp add: sizePipe_table one_inch_selected)

lemma long_drop_sizing:
  "sizePipe 10 10000 5 2 50 T rough [one_inch] naturalGas =
     \<lparr> table = [sizePipeRow 10 10000 5 2 50 T rough naturalGas one_inch],
       recommended = ''No feasible size'',
       SizePipeResult.velocity =
         SizingResultRow.velocity (sizePipeRow 10 10000 5 2 50 T rough naturalGas one_inch),
       SizePipeResult.deltaP =
         SizingResultRow.deltaP (sizePipeRow 10 10000 5 2 50 T rough naturalGas one_inch),
       SizePipeResult.status = Excessive_dP \<rparr>"
  by (simp add: sizePipe_def Let_def one_inch_selected long_drop_row)

lemma example_length: "length (calculateDropsSizing example_drops example_system example_geometry example_pipes) = 1"
  by (simp add: calculateDropsSizing_def Let_def example_pipes_def example_drops_def)

lemma example_drop_results:
  "drops (performAllCalculations example_system example_geometry example_pipes example_drops) =
     [sizeDrop example_system example_geometry (filter selected example_pipes) 1 (hd example_drops)]"
  by (simp add: perform_drops calculateDropsSizing_def Let_def example_pipes_def example_drops_def
      example_system_def)

lemma example_drop_table:
  "DropResult.comparisonTable
     (sizeDrop example_system example_geometry (filter selected example_pipes) 1 (hd example_drops))
   = map (sizePipeRow 84 100 130 95 50 70 0.00015 air) (filter selected example_pipes)"
  by (simp add: sizeDrop_def Let_def sizePipe_table or0_def example_drops_def example_system_def
      example_geometry_def)

lemma neg_demand:
  "totalDesignDemandScfm (performAllCalculations negative_factor_system example_geometry example_pipes example_drops) = - 70"
  by (simp add: performAllCalculations_def Let_def calculateDropsSizing_def sizeDrop_def or0_def
      negative_factor_system_def example_system_def example_pipes_def example_drops_def split: prod.splits)

section \<open>The claims\<close>

subsection \<open>C1: the recommended size\<close>

text \<open>
  Claim C1. When no row of a non-empty comparison table has status \<open>OK\<close>, the recommended
  label is \<open>No feasible size\<close> and the reported values are those of the first evaluated
  row. \<^verbatim>\<open>sizePipe\<close> does so (\<open>results.find(...) || results[0]\<close>, line 152); the header's
  lookup at the same step (line 289) has no such fallback. On 10000 ft of one inch bore at
  10 SCFM of natural gas and 5 psig the only row fails; the header then reports velocity
  \<open>0\<close> and outlet pressure \<open>0\<close>, which are not the values of that row, while
  \<^verbatim>\<open>sizePipe\<close> on the same segment reports the velocity of its first row.
\<close>

theorem header_misses_first_row:
  "calculateHeaderSizing 10 fuel_system long_geometry [one_inch] \<noteq> None \<and>
   map SizingResultRow.status
     (HeaderResults.comparisonTable (the (calculateHeaderSizing 10 fuel_system long_geometry [one_inch])))
     = [Insufficient_outlet_pressure] \<and>
   HeaderResults.recommendedSize (the (calculateHeaderSizing 10 fuel_system long_geometry [one_inch]))
     = ''No feasible size'' \<and>
   HeaderResults.velocity (the (calculateHeaderSizing 10 fuel_system long_geometry [one_inch])) = 0 \<and>
   HeaderResults.outletPressure (the (calculateHeaderSizing 10 fuel_system long_geometry [one_inch])) = 0 \<and>
   HeaderResults.velocity (the (calculateHeaderSizing 10 fuel_system long_geometry [one_inch]))
     \<noteq> SizingResultRow.velocity
         (hd (HeaderResults.comparisonTable
               (the (calculateHeaderSizing 10 fuel_system long_geometry [one_inch])))) \<and>
   Some (HeaderResults.outletPressure (the (calculateHeaderSizing 10 fuel_system long_geometry [one_inch])))
     \<noteq> SizingResultRow.outletPressure
         (hd (HeaderResults.comparisonTable
               (the (calculateHeaderSizing 10 fuel_system long_geometry [one_inch])))) \<and>
   recommended (sizePipe 10 10000 5 2 50 70 0.00015 [one_inch] naturalGas) = ''No feasible size'' \<and>
   SizePipeResult.velocity (sizePipe 10 10000 5 2 50 70 0.00015 [one_inch] naturalGas)
     = SizingResultRow.velocity (hd (table (sizePipe 10 10000 5 2 50 70 0.00015 [one_inch] naturalGas)))"
  by (simp add: long_header long_header_row long_drop_sizing P_ATM_PSIA_def)

subsection \<open>C2: the flow a drop is sized on\<close>

text \<open>
  Claim C2 (amended). The aggregator returns one result per drop, in the order of the
  drops, when a candidate is selected, and no result at all when none is (the early
  return of line 389). When a candidate is selected, then for every drop \<open>usedFlow\<close> is
  the larger of the drop's declared flow and the sum of the declared flows of its
  sub-drops, the drop is sized by \<^verbatim>\<open>sizePipe\<close> at \<open>usedFlow\<close> times the safety factor,
  divided by 60 for natural gas, and the flag \<open>isSizedOnSubDrops\<close> holds exactly when
  that sum exceeds the declared flow and the declared flow is not negative.
\<close>

theorem drop_aggregation:
  "length (calculateDropsSizing ds sys geo ps) = (if filter selected ps = [] then 0 else length ds) \<and>
   (filter selected ps \<noteq> [] \<longrightarrow>
     (\<forall>i < length ds.
        let d = ds ! i;
            r = calculateDropsSizing ds sys geo ps ! i;
            subTotal = sum_list (map SubDrop.reqFlow (subDrops d));
            used = max (Drop.reqFlow d) subTotal;
            designFlow = (used * demandSafetyFactor sys) / (if gasType sys = naturalGas then 60 else 1);
            sized = sizePipe designFlow (Drop.length' d) (inletPressure sys) (Drop.reqPressure d)
                      (maxLineVelocity geo) (airTemperature geo) (pipeRoughness geo) ps (gasType sys)
        in subDropTotalFlow r = subTotal \<and> usedFlow r = used \<and>
           isSizedOnSubDrops r = (subTotal > Drop.reqFlow d \<and> Drop.reqFlow d \<ge> 0) \<and>
           DropResult.comparisonTable r = table sized \<and>
           DropResult.recommendedSize r = recommended sized \<and>
           DropResult.velocity r = SizePipeResult.velocity sized \<and>
           DropResult.deltaP r = SizePipeResult.deltaP sized))"
proof -
  have l: "length (calculateDropsSizing ds sys geo ps)
             = (if filter selected ps = [] then 0 else length ds)"
    by (simp add: calculateDropsSizing_def Let_def)
  have r: "calculateDropsSizing ds sys geo ps ! i =
      sizeDrop sys geo (filter selected ps) (if gasType sys = naturalGas then 60 else 1) (ds ! i)"
    if "filter selected ps \<noteq> []" "i < length ds" for i
    using that by (simp add: calculateDropsSizing_def Let_def)
  show ?thesis
    using l by (simp add: r sizeDrop_def Let_def or0_id foldl_plus_sum_list sizePipe_filter_idem)
qed

text \<open>
  The claim as stated fails when no candidate is selected: the drop of the example gets
  no result, and the total demand is \<open>0\<close>.
\<close>

theorem drop_aggregation_counterexample:
  "example_drops \<noteq> [] \<and>
   calculateDropsSizing example_drops example_system example_geometry unselected_pipes = [] \<and>
   totalDemandScfm
     (performAllCalculations example_system example_geometry unselected_pipes example_drops) = 0"
  by (simp add: performAllCalculations_def calculateDropsSizing_def Let_def unselected_pipes_def
      example_drops_def split: prod.splits)

text \<open>
  With the candidates of the example, the drop declaring 50 with sub-drops of 30 and 40
  is sized on 70 and flagged.
\<close>

theorem drop_aggregation_witness:
  "filter selected example_pipes \<noteq> [] \<and> 0 < length example_drops \<and>
   length (calculateDropsSizing example_drops example_system example_geometry example_pipes) = 1 \<and>
   usedFlow (calculateDropsSizing example_drops example_system example_geometry example_pipes ! 0) = 70 \<and>
   isSizedOnSubDrops (calculateDropsSizing example_drops example_system example_geometry example_pipes ! 0)"
proof -
  have sel: "filter selected example_pipes \<noteq> []" by (simp add: example_pipes_def)
  have l: "0 < length example_drops" by (simp add: example_drops_def)
  have d: "example_drops ! 0 = hd example_drops" by (simp add: example_drops_def)
  have n: "length example_drops = 1" by (simp add: example_drops_def)
  from drop_aggregation [of example_drops example_system example_geometry example_pipes]
  have "length (calculateDropsSizing example_drops example_system example_geometry example_pipes)
          = length example_drops"
    and "\<forall>i < length example_drops.
        let d = example_drops ! i;
            r = calculateDropsSizing example_drops example_system example_geometry example_pipes ! i;
            subTotal = sum_list (map SubDrop.reqFlow (subDrops d));
            used = max (Drop.reqFlow d) subTotal
        in usedFlow r = used \<and>
           isSizedOnSubDrops r = (subTotal > Drop.reqFlow d \<and> Drop.reqFlow d \<ge> 0)"
    using sel by (simp_all add: Let_def)
  then show ?thesis
    using sel l by (simp add: Let_def d n) (simp add: example_drops_def)
qed

subsection \<open>C3: the capacity check\<close>

text \<open>
  Claim C3 (amended). The reported margin is the available flow minus the design demand
  whenever the design demand is not negative; for a negative design demand it is the
  available flow itself (the subtraction is guarded by \<^verbatim>\<open>totalDesignDemandScfm > 0\<close>). The
  status is \<open>No demand\<close> for a design demand of at most \<open>0\<close>, and otherwise \<open>OK\<close> for
  a margin of at least \<open>0\<close> and \<open>SHORTFALL\<close> below.
\<close>

theorem capacity_check:
  "(let res = performAllCalculations sys geo ps ds;
        available = availableCompressorFlow sys / (if gasType sys = naturalGas then 60 else 1);
        demand = totalDesignDemandScfm res;
        margin = capacityMarginOrDeficitScfm res
    in (demand \<ge> 0 \<longrightarrow> margin = available - demand) \<and>
       (demand < 0 \<longrightarrow> margin = available) \<and>
       (demand \<le> 0 \<longrightarrow> capacityStatus res = No_demand) \<and>
       (demand > 0 \<and> margin \<ge> 0 \<longrightarrow> capacityStatus res = Cap_OK) \<and>
       (demand > 0 \<and> margin < 0 \<longrightarrow> capacityStatus res = SHORTFALL))"
  by (simp add: performAllCalculations_def Let_def split: prod.splits)

text \<open>
  The claim as stated fails for a negative design demand: with the safety factor \<open>- 1\<close>
  the design demand is \<open>- 70\<close> and the margin is \<open>500\<close>, not \<open>570\<close>.
\<close>

theorem capacity_margin_counterexample:
  "capacityMarginOrDeficitScfm
      (performAllCalculations negative_factor_system example_geometry example_pipes example_drops)
   \<noteq> availableCompressorFlow negative_factor_system / 1
     - totalDesignDemandScfm
        (performAllCalculations negative_factor_system example_geometry example_pipes example_drops)"
proof -
  have "capacityMarginOrDeficitScfm
      (performAllCalculations negative_factor_system example_geometry example_pipes example_drops) = 500"
    using neg_demand
    by (simp add: performAllCalculations_def Let_def negative_factor_system_def example_system_def split: prod.splits if_splits)
  then show ?thesis
    by (simp add: neg_demand) (simp add: negative_factor_system_def example_system_def)
qed

text \<open>
  With the safety factor 1.2: design demand 84, margin 416, status \<open>OK\<close>.
\<close>

theorem capacity_check_witness:
  "totalDesignDemandScfm (performAllCalculations example_system example_geometry example_pipes example_drops) = 84 \<and>
   capacityMarginOrDeficitScfm (performAllCalculations example_system example_geometry example_pipes example_drops) = 416 \<and>
   capacityStatus (performAllCalculations example_system example_geometry example_pipes example_drops) = Cap_OK"
proof -
  have d: "totalDesignDemandScfm (performAllCalculations example_system example_geometry example_pipes example_drops) = 84"
    by (simp add: performAllCalculations_def Let_def calculateDropsSizing_def sizeDrop_def or0_def
      example_system_def example_pipes_def example_drops_def split: prod.splits)
  show ?thesis
    using capacity_check [of example_system example_geometry example_pipes example_drops]
    by (simp add: Let_def d) (simp add: example_system_def)
qed

subsection \<open>C4: the header and the generic evaluator\<close>

text \<open>
  Claim C4 (amended). The header evaluates each candidate with the flow equations of the
  generic evaluator, but seeds the five passes of the air iteration with the inlet
  pressure (its \<^verbatim>\<open>Initial guess\<close>), not with the required outlet pressure: for every
  compressed-air input the label, velocity and pressure drop of the header's rows are
  those of the rows that \<^verbatim>\<open>sizePipe\<close> computes for the same flow, length, upstream pressure,
  ceiling, temperature, roughness and candidates when its downstream reference is the
  inlet pressure.
\<close>

theorem header_seeded_at_inlet:
  assumes "gasType sys = air"
  shows "map flow_columns (header_rows (calculateHeaderSizing q sys geo ps)) =
         map flow_columns
           (table (sizePipe q (headerLength geo) (inletPressure sys) (inletPressure sys)
              (maxLineVelocity geo) (airTemperature geo) (pipeRoughness geo) ps (gasType sys)))"
proof (cases "filter selected ps = [] \<or> q \<le> 0")
  case True
  then show ?thesis
    by (auto simp: header_rows_def calculateHeaderSizing_def sizePipe_table Let_def)
next
  case False
  then have "header_rows (calculateHeaderSizing q sys geo ps)
      = map (headerRow q sys geo) (filter selected ps)"
    by (simp add: header_rows_def calculateHeaderSizing_def Let_def)
  moreover have "table (sizePipe q (headerLength geo) (inletPressure sys) (inletPressure sys)
              (maxLineVelocity geo) (airTemperature geo) (pipeRoughness geo) ps (gasType sys))
      = map (sizePipeRow q (headerLength geo) (inletPressure sys) (inletPressure sys)
              (maxLineVelocity geo) (airTemperature geo) (pipeRoughness geo) air)
          (filter selected ps)"
    using False assms by (simp add: sizePipe_table)
  ultimately show ?thesis
    using rows_agree_at_inlet_seed [OF assms] by (simp add: flow_columns_def)
qed

text \<open>
  The claim as stated fails: with the minimum outlet pressure (90 psig) as downstream
  reference the pressure drops differ. On 3000 ft at 4.6 SCFM the header's iteration stays
  laminar for the quarter inch candidate (at most 29 psi), the generic one stays turbulent
  (at least 50 psi).
\<close>

theorem header_seeded_at_inlet_counterexample:
  "map SizingResultRow.deltaP
     (header_rows (calculateHeaderSizing 4.6 example_system long_header_geometry [quarter_inch]))
   \<noteq> map SizingResultRow.deltaP
       (table (sizePipe 4.6 (headerLength long_header_geometry) (inletPressure example_system)
          (minOutletPressure example_system) (maxLineVelocity long_header_geometry)
          (airTemperature long_header_geometry) (pipeRoughness long_header_geometry)
          [quarter_inch] (gasType example_system)))"
proof -
  have h: "header_rows (calculateHeaderSizing 4.6 example_system long_header_geometry [quarter_inch])
      = [headerRow 4.6 example_system long_header_geometry quarter_inch]"
    by (simp add: header_rows_def calculateHeaderSizing_def Let_def one_quarter_selected)
  have s: "table (sizePipe 4.6 3000 130 90 50 70 0.00015 [quarter_inch] air)
      = [sizePipeRow 4.6 3000 130 90 50 70 0.00015 air quarter_inch]"
    by (simp add: sizePipe_table one_quarter_selected)
  have p: "headerLength long_header_geometry = 3000" "inletPressure example_system = 130"
    "minOutletPressure example_system = 90" "maxLineVelocity long_header_geometry = 50"
    "airTemperature long_header_geometry = 70" "pipeRoughness long_header_geometry = 0.00015"
    "gasType example_system = air"
    by (simp_all add: long_header_geometry_def example_geometry_def example_system_def)
  show ?thesis
    unfolding p h s using header_row_drop_small generic_row_drop_large by simp
qed

text \<open>
  The same header, with the inlet pressure as downstream reference.
\<close>

theorem header_seeded_at_inlet_witness:
  "gasType example_system = air \<and>
   map flow_columns
     (header_rows (calculateHeaderSizing 4.6 example_system long_header_geometry [quarter_inch]))
   = map flow_columns (table (sizePipe 4.6 3000 130 130 50 70 0.00015 [quarter_inch] air)) \<and>
   header_rows (calculateHeaderSizing 4.6 example_system long_header_geometry [quarter_inch]) \<noteq> []"
proof -
  have g: "gasType example_system = air" by (simp add: example_system_def)
  have p: "headerLength long_header_geometry = 3000" "inletPressure example_system = 130"
    "maxLineVelocity long_header_geometry = 50"
    "airTemperature long_header_geometry = 70" "pipeRoughness long_header_geometry = 0.00015"
    by (simp_all add: long_header_geometry_def example_geometry_def example_system_def)
  have ne: "header_rows (calculateHeaderSizing 4.6 example_system long_header_geometry [quarter_inch]) \<noteq> []"
    by (simp add: header_rows_def calculateHeaderSizing_def Let_def one_quarter_selected)
  show ?thesis
    using header_seeded_at_inlet [OF g, of "4.6" long_header_geometry "[quarter_inch]"] g ne
    unfolding p by simp
qed

subsection \<open>C5: the clamp of the natural-gas branch\<close>

text \<open>
  Claim C5 (amended). For natural gas, a positive flow and a positive bore, when the squared
  outlet pressure of the inverted flow equation is negative, the outlet pressure is
  \<open>- P_ATM_PSIA\<close> (absolute zero) and the pressure drop is the absolute inlet pressure,
  which no evaluation of the branch at that inlet pressure exceeds. The status of the row
  is a failing one provided the downstream reference lies above absolute zero (and, for
  \<^verbatim>\<open>sizePipe\<close>, the absolute inlet pressure above the floor of \<open>1e-6\<close>).
\<close>

theorem fuel_gas_clamp:
  assumes "0 < q" and "0 < PipeSize.id_in pipe"
    and "(up + P_ATM_PSIA) * (up + P_ATM_PSIA)
           - L * (((q * 60) / (2207 * (PipeSize.id_in pipe powr 2.582))) powr (1 / 0.522)) < 0"
  shows "SizingResultRow.deltaP (sizePipeRow q L up req mv T rough naturalGas pipe) = up + P_ATM_PSIA \<and>
         (- P_ATM_PSIA < req \<and> 1 / 10 ^ 6 < up + P_ATM_PSIA \<longrightarrow>
            SizingResultRow.status (sizePipeRow q L up req mv T rough naturalGas pipe) \<noteq> OK) \<and>
         (gasType sys = naturalGas \<and> inletPressure sys = up \<and> headerLength geo = L \<longrightarrow>
            SizingResultRow.outletPressure (headerRow q sys geo pipe) = Some (- P_ATM_PSIA) \<and>
            SizingResultRow.deltaP (headerRow q sys geo pipe) = up + P_ATM_PSIA \<and>
            (- P_ATM_PSIA < minOutletPressure sys \<longrightarrow>
               SizingResultRow.status (headerRow q sys geo pipe) \<noteq> OK)) \<and>
         (\<forall>q' L' d' a'. 0 < q' \<longrightarrow> fst (ifgcBranch q' L' up d' a') \<le> up + P_ATM_PSIA)"
proof -
  note c = ifgc_clamped [OF assms(1) assms(3)]
  have 1: "SizingResultRow.deltaP (sizePipeRow q L up req mv T rough naturalGas pipe) = up + P_ATM_PSIA"
    by (simp add: sizePipeRow_def Let_def c)
  have 2: "SizingResultRow.status (sizePipeRow q L up req mv T rough naturalGas pipe) \<noteq> OK"
    if "- P_ATM_PSIA < req" "1 / 10 ^ 6 < up + P_ATM_PSIA"
  proof -
    have "\<not> up + P_ATM_PSIA \<le> max (1 / 10 ^ 6) (up - req)"
      using that unfolding max_def by (auto simp only: split: if_splits)
    then show ?thesis
      by (simp add: sizePipeRow_def Let_def c)
  qed
  have 3: "SizingResultRow.outletPressure (headerRow q sys geo pipe) = Some (- P_ATM_PSIA) \<and>
            SizingResultRow.deltaP (headerRow q sys geo pipe) = up + P_ATM_PSIA \<and>
            (- P_ATM_PSIA < minOutletPressure sys \<longrightarrow>
               SizingResultRow.status (headerRow q sys geo pipe) \<noteq> OK)"
    if "gasType sys = naturalGas" "inletPressure sys = up" "headerLength geo = L"
    using that by (simp add: headerRow_def Let_def c)
  show ?thesis using 1 2 3 ifgc_deltaP_le by blast
qed

text \<open>
  The claim as stated fails when the required outlet pressure is absolute zero: the
  clamped row then has status \<open>OK\<close>.
\<close>

theorem fuel_gas_clamp_counterexample:
  "(5 + P_ATM_PSIA) * (5 + P_ATM_PSIA)
     - 10000 * (((10 * 60) / (2207 * (PipeSize.id_in one_inch powr 2.582))) powr (1 / 0.522)) < 0 \<and>
   SizingResultRow.status (sizePipeRow 10 10000 5 (- 14.7) 50 70 0.00015 naturalGas one_inch) = OK"
  using long_line_negative vacuum_reference_row by (simp add: one_inch_def)

text \<open>
  The long line, with a required outlet pressure of 2 psig.
\<close>

theorem fuel_gas_clamp_witness:
  "(0::real) < 10 \<and> 0 < PipeSize.id_in one_inch \<and>
   (5 + P_ATM_PSIA) * (5 + P_ATM_PSIA)
     - 10000 * (((10 * 60) / (2207 * (PipeSize.id_in one_inch powr 2.582))) powr (1 / 0.522)) < 0 \<and>
   SizingResultRow.deltaP (sizePipeRow 10 10000 5 2 50 70 0.00015 naturalGas one_inch) = 19.7 \<and>
   SizingResultRow.status (sizePipeRow 10 10000 5 2 50 70 0.00015 naturalGas one_inch) \<noteq> OK \<and>
   SizingResultRow.outletPressure (headerRow 10 fuel_system long_geometry one_inch) = Some (- 14.7) \<and>
   SizingResultRow.status (headerRow 10 fuel_system long_geometry one_inch) \<noteq> OK"
proof -
  have neg: "(5 + P_ATM_PSIA) * (5 + P_ATM_PSIA)
     - 10000 * (((10 * 60) / (2207 * (PipeSize.id_in one_inch powr 2.582))) powr (1 / 0.522)) < 0"
    using long_line_negative by (simp add: one_inch_def)
  have d: "0 < PipeSize.id_in one_inch" by (simp add: one_inch_def)
  show ?thesis
    using neg d
      fuel_gas_clamp [OF _ d neg, of 2 50 70 "0.00015" fuel_system long_geometry]
    by (simp add: fuel_system_def long_geometry_def P_ATM_PSIA_def)
qed

subsection \<open>C6: inactive segments\<close>

text \<open>
  Claim C6. For a flow of at most \<open>0\<close>, whatever the other arguments, \<^verbatim>\<open>sizePipe\<close>
  returns the empty table, the label \<open>N/A (Inactive)\<close>, status \<open>Inactive\<close>, and velocity
  and pressure drop \<open>0\<close>.
\<close>

theorem inactive_segment:
  "flowScfm \<le> 0 \<Longrightarrow>
   sizePipe flowScfm length_ft upstreamPressure_psig requiredOutletPressure_psig
       maxVelocity_fts airTemperature_F pipeRoughness_ft candidatePipes g =
     \<lparr> table = [], recommended = ''N/A (Inactive)'', SizePipeResult.velocity = 0,
       SizePipeResult.deltaP = 0, SizePipeResult.status = Inactive \<rparr>"
  by (simp add: sizePipe_def)

text \<open>
  A flow of \<open>0\<close> through the example's candidates.
\<close>

theorem inactive_segment_witness:
  "(0::real) \<le> 0 \<and>
   sizePipe 0 100 130 95 50 70 0.00015 example_pipes air =
     \<lparr> table = [], recommended = ''N/A (Inactive)'', SizePipeResult.velocity = 0,
       SizePipeResult.deltaP = 0, SizePipeResult.status = Inactive \<rparr>"
  using inactive_segment [of 0 100 130 95 50 70 "0.00015" example_pipes air] by simp

subsection \<open>C7: the receiver tank\<close>

text \<open>
  Claim C7. The tank metrics are absent exactly when the tank volume is at most \<open>0\<close>.
  Otherwise the equivalent storage is the tank volume in cubic feet times the difference
  of the absolute inlet and minimum pressures over the atmospheric pressure; for a design
  demand of at most \<open>0\<close> the coverage is infinite and no deficit is covered; for a
  positive design demand the reference flow is the absolute value of a negative margin,
  else the design demand, the coverage is the storage over the reference flow (infinite
  for a reference flow of \<open>0\<close>), and the flag tells whether the margin is negative.
\<close>

theorem tank_metrics:
  "(calculateTankMetrics sys demand margin = None \<longleftrightarrow> tankVolume sys \<le> 0) \<and>
   (tankVolume sys > 0 \<longrightarrow>
     (\<exists>m. calculateTankMetrics sys demand margin = Some m \<and>
        equivalentStorageScf m =
          (tankVolume sys / GALLONS_PER_FT3)
            * ((inletPressure sys + P_ATM_PSIA) - (minOutletPressure sys + P_ATM_PSIA)) / P_ATM_PSIA \<and>
        (demand \<le> 0 \<longrightarrow> coverageTimeMinutes m = Infinity \<and> \<not> isCoveringDeficit m) \<and>
        (demand > 0 \<longrightarrow>
           referenceFlowScfm m = (if margin < 0 then \<bar>margin\<bar> else demand) \<and>
           coverageTimeMinutes m =
             (if referenceFlowScfm m = 0 then Infinity
              else Finite (equivalentStorageScf m / referenceFlowScfm m)) \<and>
           isCoveringDeficit m = (margin < 0))))"
  by (auto simp: calculateTankMetrics_def Let_def)

text \<open>
  A tank of 748 gallons, a design demand of 120 and a deficit of 20.
\<close>

theorem tank_metrics_witness:
  "tankVolume tank_system > 0 \<and> (120::real) > 0 \<and>
   calculateTankMetrics tank_system 120 (- 20) \<noteq> None \<and>
   equivalentStorageScf (the (calculateTankMetrics tank_system 120 (- 20))) = 100 * 40 / 14.7 \<and>
   referenceFlowScfm (the (calculateTankMetrics tank_system 120 (- 20))) = 20 \<and>
   coverageTimeMinutes (the (calculateTankMetrics tank_system 120 (- 20)))
     = Finite (100 * 40 / 14.7 / 20) \<and>
   isCoveringDeficit (the (calculateTankMetrics tank_system 120 (- 20)))"
  using tank_metrics [of tank_system 120 "- 20"]
  by (auto simp: tank_system_def example_system_def GALLONS_PER_FT3_def P_ATM_PSIA_def)

subsection \<open>C8: the options shown for a sub-drop\<close>

text \<open>
  Claim C8 (amended). The options of a sub-drop are the first three rows of severity
  \<open>ok\<close> of its comparison table when there is such a row, and the first three rows of
  the table otherwise. They are non-empty exactly when the table is, that is when the
  design flow of the sub-drop is positive and a candidate is selected: an inactive
  sub-drop has no options.
\<close>

theorem sub_drop_options:
  "(let designFlow = (SubDrop.reqFlow sd * demandSafetyFactor sys) / fd;
        t = table (sizePipe designFlow (SubDrop.length' sd) (inletPressure sys)
               (SubDrop.reqPressure sd) (maxLineVelocity geo) (airTemperature geo)
               (pipeRoughness geo) sel (gasType sys));
        okRows = filter (\<lambda>r. severity r = Some Sev_ok) t;
        opts = sizingOptions (sizeSubDrop sys geo sel fd sd)
    in opts = (if okRows \<noteq> [] then take 3 okRows else take 3 t) \<and>
       length opts \<le> 3 \<and>
       (opts \<noteq> [] \<longleftrightarrow> designFlow > 0 \<and> filter selected sel \<noteq> []))"
  by (auto simp: sizeSubDrop_options Let_def sizePipe_table)

text \<open>
  The claim as stated fails for a sub-drop that declares no flow: its option list is
  empty.
\<close>

theorem sub_drop_options_counterexample:
  "sizingOptions
     (hd (subDropResults
       (hd (drops (performAllCalculations example_system example_geometry example_pipes
                     inactive_sub_drops))))) = []"
  by (simp add: perform_drops calculateDropsSizing_def sizeDrop_def Let_def sizeSubDrop_options
      sizePipe_table inactive_sub_drops_def example_pipes_def)

text \<open>
  The first sub-drop of the example has options, at most three.
\<close>

theorem sub_drop_options_witness:
  "sizingOptions (sizeSubDrop example_system example_geometry example_pipes 1
      (hd (subDrops (hd example_drops)))) \<noteq> [] \<and>
   length (sizingOptions (sizeSubDrop example_system example_geometry example_pipes 1
      (hd (subDrops (hd example_drops))))) \<le> 3"
proof -
  have flow: "(SubDrop.reqFlow (hd (subDrops (hd example_drops)))
                 * demandSafetyFactor example_system) / 1 > 0"
    by (simp add: example_drops_def example_system_def)
  have sel: "filter selected example_pipes \<noteq> []"
    by (simp add: example_pipes_def)
  show ?thesis
    using sub_drop_options [of "hd (subDrops (hd example_drops))" example_system 1
        example_geometry example_pipes] flow sel
    unfolding Let_def by blast
qed

subsection \<open>C9: velocity and pressure drop as functions of the flow\<close>

text \<open>
  Claim C9. For a fixed segment and a fixed candidate, a larger flow never gives a smaller
  velocity or a smaller pressure drop. The natural-gas branch satisfies this
  (\<open>fuel_gas_flow_monotone\<close>); the air branch does not. Its five passes (lines 111 to 125)
  are not guarded against a pressure drop beyond the absolute inlet pressure, the case
  that the natural-gas branch clamps: through 1000 ft of the quarter inch candidate at 130
  psig the mean absolute pressure of the later passes is negative at 200 SCFM, and the
  reported velocity is negative, whereas at 1 SCFM it is positive.
\<close>

theorem air_velocity_decreases:
  "SizingResultRow.velocity (sizePipeRow 200 1000 130 95 50 70 0.00015 air quarter_inch) < 0 \<and>
   0 < SizingResultRow.velocity (sizePipeRow 1 1000 130 95 50 70 0.00015 air quarter_inch) \<and>
   SizingResultRow.velocity (sizePipeRow 200 1000 130 95 50 70 0.00015 air quarter_inch)
     < SizingResultRow.velocity (sizePipeRow 1 1000 130 95 50 70 0.00015 air quarter_inch)"
proof -
  define d :: real where "d = 0.364 / 12"
  define a where "a = (pi * d * d) / 4"
  let ?J = "\<lambda>p::real. 95 \<le> p \<and> p \<le> 130"
  have stepJ: "?J (var_p_out_psig_iter (darcyPass (GAS_PROPERTIES air) 70 130 1 1000 0.00015 d a p))"
    if "?J p" for p
    using small_flow_pass [OF d_def a_def, of p] that by simp
  have "?J 95" by simp
  then have firstJ: "?J (var_p_out_psig_iter (darcyPass (GAS_PROPERTIES air) 70 130 1 1000 0.00015 d a 95))"
    by (rule stepJ)
  obtain p1 where p1: "?J p1"
    and e1: "darcyBranch (GAS_PROPERTIES air) 70 130 1 1000 0.00015 d a 95
              = darcyPass (GAS_PROPERTIES air) 70 130 1 1000 0.00015 d a p1"
    using darcyBranch_invariant [of ?J, OF firstJ stepJ] by blast
  have small: "0 < var_v_fts (darcyBranch (GAS_PROPERTIES air) 70 130 1 1000 0.00015 d a 95)"
    unfolding e1 using small_flow_pass [OF d_def a_def, of p1] p1 by simp
  let ?I = "\<lambda>p::real. p < - 160"
  have stepI: "?I (var_p_out_psig_iter (darcyPass (GAS_PROPERTIES air) 70 130 200 1000 0.00015 d a p))"
    if "?I p" for p
    using large_flow_pass [OF d_def a_def, of p] that by simp
  have firstI: "?I (var_p_out_psig_iter (darcyPass (GAS_PROPERTIES air) 70 130 200 1000 0.00015 d a 95))"
    by (rule large_flow_first_pass [OF d_def a_def])
  obtain p2 where p2: "?I p2"
    and e2: "darcyBranch (GAS_PROPERTIES air) 70 130 200 1000 0.00015 d a 95
              = darcyPass (GAS_PROPERTIES air) 70 130 200 1000 0.00015 d a p2"
    using darcyBranch_invariant [of ?I, OF firstI stepI] by blast
  have large: "var_v_fts (darcyBranch (GAS_PROPERTIES air) 70 130 200 1000 0.00015 d a 95) < 0"
    unfolding e2 using large_flow_pass [OF d_def a_def, of p2] p2 by simp
  have r1: "SizingResultRow.velocity (sizePipeRow 1 1000 130 95 50 70 0.00015 air quarter_inch)
      = var_v_fts (darcyBranch (GAS_PROPERTIES air) 70 130 1 1000 0.00015 d a 95)"
    unfolding d_def a_def by (subst sizePipeRow_air) (simp_all add: quarter_inch_def)
  have r2: "SizingResultRow.velocity (sizePipeRow 200 1000 130 95 50 70 0.00015 air quarter_inch)
      = var_v_fts (darcyBranch (GAS_PROPERTIES air) 70 130 200 1000 0.00015 d a 95)"
    unfolding d_def a_def by (subst sizePipeRow_air) (simp_all add: quarter_inch_def)
  show ?thesis unfolding r1 r2 using small large by simp
qed

subsection \<open>C10: severity and status agree\<close>

text \<open>
  Claim C10. In every row of every table in the result of \<^verbatim>\<open>performAllCalculations\<close> (the
  comparison table of a drop, the options of a sub-drop, the comparison table of the
  header) the severity is \<open>ok\<close> if and only if the status is \<open>OK\<close>, and a row of another
  status has severity \<open>warn\<close> or \<open>bad\<close>.
\<close>

theorem severity_ok_iff_status_OK:
  "(\<forall>dr \<in> set (drops (performAllCalculations sys geo ps ds)).
      (\<forall>r \<in> set (DropResult.comparisonTable dr). row_tiers_agree r) \<and>
      (\<forall>s \<in> set (subDropResults dr). \<forall>r \<in> set (sizingOptions s). row_tiers_agree r)) \<and>
   (\<forall>h. header (performAllCalculations sys geo ps ds) = Some h \<longrightarrow>
      (\<forall>r \<in> set (HeaderResults.comparisonTable h). row_tiers_agree r))"
proof (intro conjI ballI allI impI)
  fix dr r assume "dr \<in> set (drops (performAllCalculations sys geo ps ds))"
    and "r \<in> set (DropResult.comparisonTable dr)"
  then show "row_tiers_agree r"
    by (auto simp: perform_drops calculateDropsSizing_def Let_def split: if_splits
        dest: sizeDrop_tiers)
next
  fix dr s r assume "dr \<in> set (drops (performAllCalculations sys geo ps ds))"
    and "s \<in> set (subDropResults dr)" and "r \<in> set (sizingOptions s)"
  then show "row_tiers_agree r"
    by (auto simp: perform_drops calculateDropsSizing_def Let_def split: if_splits
        dest: sizeDrop_sub_tiers)
next
  fix h r assume "header (performAllCalculations sys geo ps ds) = Some h"
    and "r \<in> set (HeaderResults.comparisonTable h)"
  then show "row_tiers_agree r"
    by (metis perform_header header_tiers)
qed

text \<open>
  The first row of the drop of the example.
\<close>

theorem severity_ok_iff_status_OK_witness:
  "drops (performAllCalculations example_system example_geometry example_pipes example_drops) \<noteq> [] \<and>
   DropResult.comparisonTable
     (hd (drops (performAllCalculations example_system example_geometry example_pipes example_drops)))
     \<noteq> [] \<and>
   row_tiers_agree
     (hd (DropResult.comparisonTable
       (hd (drops (performAllCalculations example_system example_geometry example_pipes
                     example_drops)))))"
proof -
  let ?res = "performAllCalculations example_system example_geometry example_pipes example_drops"
  have d: "drops ?res \<noteq> []" by (simp add: example_drop_results)
  have t: "DropResult.comparisonTable (hd (drops ?res)) \<noteq> []"
    by (simp add: example_drop_results example_drop_table) (simp add: example_pipes_def)
  have "hd (drops ?res) \<in> set (drops ?res)" using d by simp
  moreover have "hd (DropResult.comparisonTable (hd (drops ?res)))
      \<in> set (DropResult.comparisonTable (hd (drops ?res)))" using t by simp
  ultimately have "row_tiers_agree (hd (DropResult.comparisonTable (hd (drops ?res))))"
    using severity_ok_iff_status_OK [of example_system example_geometry example_pipes example_drops]
    by blast
  with d t show ?thesis by simp
qed

end
